theory Spec2Isabelle
  imports Main "HOL-Library.Sublist"
begin

section \<open>Values and exceptions shared by the three backends\<close>

text \<open>
  The Python sources exchange JSON-like values with the provider libraries: strings,
  numbers, booleans, lists and dictionaries. A dictionary nested inside a value is an
  association list in insertion order; the top-level dictionaries the code indexes
  (\<^verbatim>\<open>result\<close>, \<^verbatim>\<open>operation\<close>, \<^verbatim>\<open>args\<close>) are maps.
\<close>

datatype jvalue =
    JNone
  | JBool bool
  | JNum int
  | JStr string
  | JArr "jvalue list"
  | JObj "(string \<times> jvalue) list"

type_synonym jdict = "string \<rightharpoonup> jvalue"

text \<open>
  Every exception the modelled code can see. \<open>Exception\<close> is the bare
  \<^verbatim>\<open>Exception(result['error'])\<close> of \<^verbatim>\<open>GCE._wait_for_operation\<close>, \<open>RuntimeError\<close> the one
  \<^verbatim>\<open>EC2.launch\<close> raises for a VPC it cannot use, \<open>KeyError\<close>, \<open>IndexError\<close> and
  \<open>TypeError\<close> come from indexing, and \<open>ExternalError\<close> stands for whatever a provider
  library or \<^verbatim>\<open>subp\<close> raises on its own (botocore's \<^verbatim>\<open>ClientError\<close>, googleapiclient's
  \<^verbatim>\<open>HttpError\<close>, a failed process).
\<close>

datatype exn =
    Exception jvalue
  | RuntimeError string
  | KeyError string
  | IndexError
  | TypeError
  | ExternalError string

text \<open>Python's \<^verbatim>\<open>v[key]\<close> and \<^verbatim>\<open>v[0]\<close> on a JSON value.\<close>

fun getitem :: "jvalue \<Rightarrow> string \<Rightarrow> exn + jvalue" where
  "getitem (JObj kvs) k = (case map_of kvs k of None \<Rightarrow> Inl (KeyError k) | Some v \<Rightarrow> Inr v)"
| "getitem v k = Inl TypeError"

fun getitem0 :: "jvalue \<Rightarrow> exn + jvalue" where
  "getitem0 (JArr []) = Inl IndexError"
| "getitem0 (JArr (x # xs)) = Inr x"
| "getitem0 (JStr []) = Inl IndexError"
| "getitem0 (JStr (c # cs)) = Inr (JStr [c])"
| "getitem0 (JObj kvs) = Inl (KeyError ''0'')"
| "getitem0 v = Inl TypeError"

section \<open>Running code against a backend\<close>

text \<open>
  A method that talks to a backend takes the record of what has been sent so far and
  returns either an exception or a value, together with the extended record. \<open>bnd\<close>
  is sequencing: an exception of the first part ends the run, as in Python.
  Calls to the logger (\<^verbatim>\<open>self._log.debug\<close> and its siblings) reach no backend and
  return nothing; they are left out, the arguments they evaluate are kept where the
  evaluation can raise.
\<close>

definition ret :: "'a \<Rightarrow> 's \<Rightarrow> (exn + 'a) \<times> 's" where
  "ret x s = (Inr x, s)"

definition throw :: "exn \<Rightarrow> 's \<Rightarrow> (exn + 'a) \<times> 's" where
  "throw e s = (Inl e, s)"

definition bnd ::
  "('s \<Rightarrow> (exn + 'a) \<times> 's) \<Rightarrow> ('a \<Rightarrow> 's \<Rightarrow> (exn + 'b) \<times> 's) \<Rightarrow> 's \<Rightarrow> (exn + 'b) \<times> 's"
where
  "bnd m f s = (case m s of (Inl e, s') \<Rightarrow> (Inl e, s') | (Inr x, s') \<Rightarrow> f x s')"

section \<open>GCE: \<^verbatim>\<open>pycloudlib/gce/cloud.py\<close>\<close>

text \<open>
  The GCE object holds the tag, the project, the zone string built by the constructor
  and the public key of the key pair in use.
\<close>

record gce =
  gce_tag :: string
  gce_project :: string
  gce_zone :: string
  gce_public_key_content :: string

text \<open>
  The requests of the Google API client that the class issues, each with its
  \<^verbatim>\<open>project\<close> and \<^verbatim>\<open>zone\<close> arguments first.
\<close>

datatype gce_call =
    InstancesInsert string string jvalue
  | ZoneOperationsGet string string jvalue
  | InstancesGet string string string

text \<open>
  What a run has done so far: the seconds spent in \<^verbatim>\<open>time.sleep\<close> and the requests
  issued, oldest first.
\<close>

record gce_world =
  clock :: nat
  requests :: "gce_call list"

text \<open>
  The Google API client is outside the repository. Each \<^verbatim>\<open>execute()\<close> either raises
  or returns a value; the reply may depend on the moment and on what was asked before.
\<close>

record compute =
  instances_insert :: "gce_world \<Rightarrow> string \<Rightarrow> string \<Rightarrow> jvalue \<Rightarrow> exn + jdict"
  zoneOperations_get :: "gce_world \<Rightarrow> string \<Rightarrow> string \<Rightarrow> jvalue \<Rightarrow> exn + jdict"
  instances_get :: "gce_world \<Rightarrow> string \<Rightarrow> string \<Rightarrow> string \<Rightarrow> exn + jvalue"

definition sleep :: "nat \<Rightarrow> gce_world \<Rightarrow> gce_world" where
  "sleep n w = w\<lparr>clock := clock w + n\<rparr>"

definition sent :: "gce_call \<Rightarrow> gce_world \<Rightarrow> gce_world" where
  "sent r w = w\<lparr>requests := requests w @ [r]\<rparr>"

text \<open>
  \<^verbatim>\<open>GCE._wait_for_operation\<close>: \<^verbatim>\<open>while True\<close> with a five second sleep and one request
  per round. The only exits are the \<^verbatim>\<open>return\<close> and the \<^verbatim>\<open>raise\<close> under
  \<^verbatim>\<open>result['status'] == 'DONE'\<close>, and an exception of the request or of an indexing.
  The loop has no bound, so the model is a partial function: \<open>None\<close> is a run that
  never comes back.
\<close>

partial_function (option) GCE_wait_for_operation ::
  "compute \<Rightarrow> gce \<Rightarrow> jdict \<Rightarrow> gce_world \<Rightarrow> ((exn + jdict) \<times> gce_world) option"
where
  "GCE_wait_for_operation c self operation w =
     (let w1 = sleep 5 w in
      case operation ''name'' of
        None \<Rightarrow> Some (Inl (KeyError ''name''), w1)
      | Some nm \<Rightarrow>
          (let w2 = sent (ZoneOperationsGet (gce_project self) (gce_zone self) nm) w1 in
           case zoneOperations_get c w1 (gce_project self) (gce_zone self) nm of
             Inl e \<Rightarrow> Some (Inl e, w2)
           | Inr result \<Rightarrow>
               (case result ''status'' of
                  None \<Rightarrow> Some (Inl (KeyError ''status''), w2)
                | Some st \<Rightarrow>
                    if st = JStr ''DONE'' then
                      (case result ''error'' of
                         Some err \<Rightarrow> Some (Inl (Exception err), w2)
                       | None \<Rightarrow> Some (Inr result, w2))
                    else GCE_wait_for_operation c self operation w2)))"

text \<open>The \<^verbatim>\<open>config\<close> dictionary of \<^verbatim>\<open>GCE.launch\<close>.\<close>

definition launch_config :: "gce \<Rightarrow> string \<Rightarrow> string \<Rightarrow> jvalue" where
  "launch_config self image_id instance_type = JObj
     [(''name'', JStr (gce_tag self)),
      (''machineType'', JStr (''zones/'' @ gce_zone self @ ''/machineTypes/'' @ instance_type)),
      (''disks'', JArr [JObj
         [(''boot'', JBool True),
          (''autoDelete'', JBool True),
          (''initializeParams'', JObj [(''sourceImage'', JStr image_id)])]]),
      (''networkInterfaces'', JArr [JObj
         [(''network'', JStr ''global/networks/default''),
          (''accessConfigs'', JArr [JObj
             [(''type'', JStr ''ONE_TO_ONE_NAT''), (''name'', JStr ''External NAT'')]])]]),
      (''metadata'', JObj [(''items'', JArr [JObj
         [(''key'', JStr ''ssh-keys''),
          (''value'', JStr (''admin:'' @ gce_public_key_content self))]])])]"

text \<open>
  The argument of the closing \<^verbatim>\<open>self._log.info\<close> of \<^verbatim>\<open>GCE.launch\<close>:
  \<^verbatim>\<open>result['networkInterfaces'][0]['accessConfigs'][0]['natIP']\<close>.
\<close>

definition nat_ip :: "jvalue \<Rightarrow> exn + jvalue" where
  "nat_ip result =
     (case getitem result ''networkInterfaces'' of
        Inl e \<Rightarrow> Inl e
      | Inr nis \<Rightarrow>
          (case getitem0 nis of
             Inl e \<Rightarrow> Inl e
           | Inr ni \<Rightarrow>
               (case getitem ni ''accessConfigs'' of
                  Inl e \<Rightarrow> Inl e
                | Inr acs \<Rightarrow>
                    (case getitem0 acs of
                       Inl e \<Rightarrow> Inl e
                     | Inr ac \<Rightarrow> getitem ac ''natIP''))))"

text \<open>
  \<^verbatim>\<open>GCE.launch\<close>. \<^verbatim>\<open>user_data\<close> only triggers a warning, \<^verbatim>\<open>wait\<close> and \<^verbatim>\<open>kwargs\<close> are
  never read, and the body ends without a \<^verbatim>\<open>return\<close>: the value of the call is
  Python's \<^verbatim>\<open>None\<close>.
\<close>

definition GCE_launch ::
  "compute \<Rightarrow> gce \<Rightarrow> string \<Rightarrow> string \<Rightarrow> string option \<Rightarrow> bool \<Rightarrow> (string \<times> jvalue) list \<Rightarrow>
   gce_world \<Rightarrow> ((exn + jvalue) \<times> gce_world) option"
where
  "GCE_launch c self image_id instance_type user_data wait kwargs w =
     (let config = launch_config self image_id instance_type;
          w1 = sent (InstancesInsert (gce_project self) (gce_zone self) config) w in
      case instances_insert c w (gce_project self) (gce_zone self) config of
        Inl e \<Rightarrow> Some (Inl e, w1)
      | Inr operation \<Rightarrow>
          (case GCE_wait_for_operation c self operation w1 of
             None \<Rightarrow> None
           | Some (Inl e, w2) \<Rightarrow> Some (Inl e, w2)
           | Some (Inr finished, w2) \<Rightarrow>
               (let w3 = sent (InstancesGet (gce_project self) (gce_zone self) (gce_tag self)) w2 in
                case instances_get c w2 (gce_project self) (gce_zone self) (gce_tag self) of
                  Inl e \<Rightarrow> Some (Inl e, w3)
                | Inr result \<Rightarrow>
                    (case nat_ip result of
                       Inl e \<Rightarrow> Some (Inl e, w3)
                     | Inr ip \<Rightarrow> Some (Inr JNone, w3)))))"

section \<open>EC2: \<^verbatim>\<open>pycloudlib/ec2/cloud.py\<close>\<close>

text \<open>
  \<^verbatim>\<open>KeyPair\<close>, \<^verbatim>\<open>EC2Instance\<close> and \<^verbatim>\<open>VPC\<close> are classes of the repository whose files
  are not among the sources; boto3 is a library. Of each, the model keeps what
  \<^verbatim>\<open>cloud.py\<close> reads: the key pair's name, the boto3 instance object wrapped by an
  \<^verbatim>\<open>EC2Instance\<close> (its \<^verbatim>\<open>id\<close> and \<^verbatim>\<open>image_id\<close>), the id of a VPC.
\<close>

record key_pair =
  kp_name :: string

record ec2 =
  ec2_tag :: string
  ec2_key_pair :: key_pair

record boto_instance =
  boto_id :: string
  boto_image_id :: string

text \<open>\<^verbatim>\<open>EC2Instance(self.client, self.key_pair, instance)\<close>: the handle given to the caller.\<close>

record ec2_instance =
  inst_key_pair :: key_pair
  inst_instance :: boto_instance

definition instance_id :: "ec2_instance \<Rightarrow> string" where
  "instance_id i = boto_id (inst_instance i)"

definition instance_image_id :: "ec2_instance \<Rightarrow> string" where
  "instance_image_id i = boto_image_id (inst_instance i)"

record vpc =
  vpc_id :: string

text \<open>
  The requests \<^verbatim>\<open>EC2.launch\<close> and \<^verbatim>\<open>EC2.snapshot\<close> send, directly or through the
  instance handle: \<^verbatim>\<open>vpc.vpc.subnets.all()\<close>, \<^verbatim>\<open>vpc.vpc.security_groups.all()\<close>,
  \<^verbatim>\<open>resource.create_instances(**args)\<close>, \<^verbatim>\<open>instance.wait()\<close>, \<^verbatim>\<open>instance.clean()\<close>,
  \<^verbatim>\<open>instance.shutdown(wait=...)\<close>, \<^verbatim>\<open>instance.start(wait=...)\<close>,
  \<^verbatim>\<open>client.create_image(Name=..., InstanceId=...)\<close>, \<^verbatim>\<open>image.wait_until_exists()\<close>,
  the \<^verbatim>\<open>image_available\<close> waiter and \<^verbatim>\<open>image.reload()\<close>.
\<close>

datatype ec2_call =
    SubnetsAll string
  | SecurityGroupsAll string
  | CreateInstances jdict
  | InstanceWait string
  | InstanceClean string
  | InstanceShutdown string bool
  | InstanceStart string bool
  | CreateImage string string
  | ImageWaitUntilExists jvalue
  | WaiterImageAvailable "jvalue list"
  | ImageReload jvalue

text \<open>
  The backend as the code meets it: whether a request raises, given everything sent
  before, and what the three requests with a result return when they do not raise.
\<close>

record ec2_backend =
  fails :: "ec2_call list \<Rightarrow> ec2_call \<Rightarrow> exn option"
  subnet_ids :: "ec2_call list \<Rightarrow> string \<Rightarrow> string list"
  security_group_ids :: "ec2_call list \<Rightarrow> string \<Rightarrow> string list"
  instances_created :: "ec2_call list \<Rightarrow> jdict \<Rightarrow> boto_instance list"
  image_response :: "ec2_call list \<Rightarrow> string \<Rightarrow> string \<Rightarrow> jdict"

text \<open>A request is recorded whether or not it raises: it was attempted.\<close>

definition request ::
  "ec2_backend \<Rightarrow> ec2_call \<Rightarrow> (ec2_call list \<Rightarrow> 'a) \<Rightarrow> ec2_call list \<Rightarrow> (exn + 'a) \<times> ec2_call list"
where
  "request b c reply log =
     (case fails b log c of Some e \<Rightarrow> (Inl e, log @ [c]) | None \<Rightarrow> (Inr (reply log), log @ [c]))"

text \<open>
  The body of \<^verbatim>\<open>EC2.launch\<close> up to the \<^verbatim>\<open>create_instances\<close> request, in the order
  of the source. First the \<^verbatim>\<open>args\<close> dictionary from the named parameters, with
  \<^verbatim>\<open>UserData\<close> when \<^verbatim>\<open>user_data\<close> is truthy (neither \<^verbatim>\<open>None\<close> nor empty).
\<close>

definition named_args :: "ec2 \<Rightarrow> string \<Rightarrow> string \<Rightarrow> string option \<Rightarrow> jdict" where
  "named_args self image_id instance_type user_data =
     (let args =
            [''ImageId'' \<mapsto> JStr image_id,
             ''InstanceType'' \<mapsto> JStr instance_type,
             ''KeyName'' \<mapsto> JStr (kp_name (ec2_key_pair self)),
             ''MaxCount'' \<mapsto> JNum 1,
             ''MinCount'' \<mapsto> JNum 1,
             ''TagSpecifications'' \<mapsto> JArr [JObj
                [(''ResourceType'', JStr ''instance''),
                 (''Tags'', JArr [JObj [(''Key'', JStr ''Name''), (''Value'', JStr (ec2_tag self))]])]]]
      in case user_data of
           None \<Rightarrow> args
         | Some ud \<Rightarrow> if ud \<noteq> [] then args(''UserData'' \<mapsto> JStr ud) else args)"

text \<open>
  Then \<^verbatim>\<open>for key, value in kwargs.items(): args[key] = value\<close>; \<^verbatim>\<open>kwargs\<close> is the list
  of its items in iteration order (a Python dictionary: no key twice).
\<close>

fun setitem :: "string \<times> jvalue \<Rightarrow> jdict \<Rightarrow> jdict" where
  "setitem (key, value) args = args(key \<mapsto> value)"

definition add_kwargs :: "(string \<times> jvalue) list \<Rightarrow> jdict \<Rightarrow> jdict" where
  "add_kwargs kwargs args = fold setitem kwargs args"

text \<open>
  Then, when a VPC is given, the two keys taken from it. \<^verbatim>\<open>[subnet_id] = [...]\<close> raises
  \<^verbatim>\<open>ValueError\<close> unless the list has exactly one element, and the handler turns that
  into the \<^verbatim>\<open>RuntimeError\<close>.
\<close>

definition launch_args ::
  "ec2_backend \<Rightarrow> ec2 \<Rightarrow> string \<Rightarrow> string \<Rightarrow> string option \<Rightarrow> vpc option \<Rightarrow>
   (string \<times> jvalue) list \<Rightarrow> ec2_call list \<Rightarrow> (exn + jdict) \<times> ec2_call list"
where
  "launch_args b self image_id instance_type user_data vpc kwargs =
     (let args = add_kwargs kwargs (named_args self image_id instance_type user_data)
      in case vpc of
           None \<Rightarrow> ret args
         | Some v \<Rightarrow>
             bnd (request b (SubnetsAll (vpc_id v)) (\<lambda>log. subnet_ids b log (vpc_id v)))
               (\<lambda>subnets.
                  case subnets of
                    [subnet_id] \<Rightarrow>
                      bnd (request b (SecurityGroupsAll (vpc_id v))
                             (\<lambda>log. security_group_ids b log (vpc_id v)))
                        (\<lambda>sgs. ret (args(''SubnetId'' \<mapsto> JStr subnet_id,
                                          ''SecurityGroupIds'' \<mapsto> JArr (map JStr sgs))))
                  | _ \<Rightarrow>
                      throw (RuntimeError (''Too many subnets in vpc '' @ vpc_id v
                        @ ''. pycloudlib does not support launching into VPCs with multiple subnets''))))"

text \<open>\<^verbatim>\<open>EC2.launch\<close>: the request, the handle around \<^verbatim>\<open>instances[0]\<close>, the optional wait.\<close>

definition EC2_launch ::
  "ec2_backend \<Rightarrow> ec2 \<Rightarrow> string \<Rightarrow> string \<Rightarrow> string option \<Rightarrow> vpc option \<Rightarrow> bool \<Rightarrow>
   (string \<times> jvalue) list \<Rightarrow> ec2_call list \<Rightarrow> (exn + ec2_instance) \<times> ec2_call list"
where
  "EC2_launch b self image_id instance_type user_data vpc wait kwargs =
     bnd (launch_args b self image_id instance_type user_data vpc kwargs)
       (\<lambda>args.
          bnd (request b (CreateInstances args) (\<lambda>log. instances_created b log args))
            (\<lambda>instances.
               case instances of
                 [] \<Rightarrow> throw IndexError
               | first # others \<Rightarrow>
                   (let instance = \<lparr>inst_key_pair = ec2_key_pair self, inst_instance = first\<rparr>
                    in if wait
                       then bnd (request b (InstanceWait (instance_id instance)) (\<lambda>log. ()))
                              (\<lambda>u. ret instance)
                       else ret instance)))"

text \<open>\<^verbatim>\<open>EC2._wait_for_snapshot\<close>; the image object \<^verbatim>\<open>resource.Image(id)\<close> is known by its id.\<close>

definition EC2_wait_for_snapshot ::
  "ec2_backend \<Rightarrow> jvalue \<Rightarrow> ec2_call list \<Rightarrow> (exn + unit) \<times> ec2_call list"
where
  "EC2_wait_for_snapshot b img =
     bnd (request b (ImageWaitUntilExists img) (\<lambda>log. ()))
       (\<lambda>u. bnd (request b (WaiterImageAvailable [img]) (\<lambda>log. ()))
          (\<lambda>u. request b (ImageReload img) (\<lambda>log. ())))"

text \<open>
  \<^verbatim>\<open>EC2.snapshot\<close>: clean, shut down, \<^verbatim>\<open>create_image\<close>, wait for the image, start again,
  return the image id. There is no \<^verbatim>\<open>try\<close> in the body.
\<close>

definition EC2_snapshot ::
  "ec2_backend \<Rightarrow> ec2 \<Rightarrow> ec2_instance \<Rightarrow> bool \<Rightarrow> ec2_call list \<Rightarrow> (exn + jvalue) \<times> ec2_call list"
where
  "EC2_snapshot b self instance clean =
     bnd (if clean then request b (InstanceClean (instance_id instance)) (\<lambda>log. ()) else ret ())
       (\<lambda>u. bnd (request b (InstanceShutdown (instance_id instance) True) (\<lambda>log. ()))
          (\<lambda>u. bnd (request b
                       (CreateImage (ec2_tag self @ ''-'' @ instance_image_id instance)
                          (instance_id instance))
                       (\<lambda>log. image_response b log
                          (ec2_tag self @ ''-'' @ instance_image_id instance)
                          (instance_id instance)))
             (\<lambda>response.
                case response ''ImageId'' of
                  None \<Rightarrow> throw (KeyError ''ImageId'')
                | Some image_ami_edited \<Rightarrow>
                    bnd (EC2_wait_for_snapshot b image_ami_edited)
                      (\<lambda>u. bnd (request b (InstanceStart (instance_id instance) True) (\<lambda>log. ()))
                         (\<lambda>u. ret image_ami_edited)))))"

subsection \<open>Networks looked up by name\<close>

text \<open>
  \<^verbatim>\<open>EC2.get_or_create_vpc\<close> is in the sources; \<^verbatim>\<open>VPC.create\<close>, \<^verbatim>\<open>VPC.from_existing\<close>
  (\<^verbatim>\<open>pycloudlib/ec2/vpc.py\<close>) and the account behind \<^verbatim>\<open>describe_vpcs\<close> are not.
  The account is the list of its VPCs, each with an id and its \<^verbatim>\<open>Name\<close> tag.
\<close>

record vpc_entry =
  VpcId :: string
  NameTag :: string
  CidrBlock :: string

record account =
  Vpcs :: "vpc_entry list"

text \<open>
  Modelled from the spec: \<^verbatim>\<open>client.describe_vpcs\<close> with the filter \<^verbatim>\<open>tag:Name\<close> is
  missing; the network context is "looked up by name", so the reply lists the VPCs of
  the account whose \<^verbatim>\<open>Name\<close> tag is the given name, in the account's order.
\<close>

definition describe_vpcs :: "string \<Rightarrow> account \<Rightarrow> vpc_entry list" where
  "describe_vpcs name a = filter (\<lambda>v. NameTag v = name) (Vpcs a)"

text \<open>
  Modelled from the spec: \<^verbatim>\<open>VPC.from_existing\<close> is missing; the network context is
  "referenced by id", so the handle is the id it is given and nothing is created.
\<close>

definition VPC_from_existing :: "string \<Rightarrow> account \<Rightarrow> vpc \<times> account" where
  "VPC_from_existing i a = (\<lparr>vpc_id = i\<rparr>, a)"

text \<open>
  Modelled from the spec: \<^verbatim>\<open>VPC.create\<close> is missing; the network context is "created,
  looked up by name", so creation adds one VPC carrying the name, under the id the
  provider picks (\<open>new_id\<close>, a parameter), and returns the handle of that id.
\<close>

definition VPC_create ::
  "(account \<Rightarrow> string) \<Rightarrow> string \<Rightarrow> string \<Rightarrow> account \<Rightarrow> vpc \<times> account"
where
  "VPC_create new_id name ipv4_cidr a =
     (\<lparr>vpc_id = new_id a\<rparr>,
      a\<lparr>Vpcs := Vpcs a @ [\<lparr>VpcId = new_id a, NameTag = name, CidrBlock = ipv4_cidr\<rparr>]\<rparr>)"

text \<open>\<^verbatim>\<open>EC2.get_or_create_vpc\<close>, as written: \<^verbatim>\<open>vpcs[0]['VpcId']\<close> when the reply is not empty.\<close>

definition EC2_get_or_create_vpc ::
  "(account \<Rightarrow> string) \<Rightarrow> string \<Rightarrow> string \<Rightarrow> account \<Rightarrow> vpc \<times> account"
where
  "EC2_get_or_create_vpc new_id name ipv4_cidr a =
     (case describe_vpcs name a of
        v # vs \<Rightarrow> VPC_from_existing (VpcId v) a
      | [] \<Rightarrow> VPC_create new_id name ipv4_cidr a)"

section \<open>LXD: \<^verbatim>\<open>pycloudlib/lxd/instance.py\<close>\<close>

text \<open>
  \<^verbatim>\<open>subp\<close> (\<^verbatim>\<open>pycloudlib/util.py\<close>, not among the sources) runs a command line and
  returns its output as a string, or raises. The backend is what the \<^verbatim>\<open>lxc\<close> client
  answers to a command line, given the command lines run before; the record of a run
  is the list of command lines, oldest first.
\<close>

type_synonym command = "string list"

type_synonym lxc = "command list \<Rightarrow> command \<Rightarrow> exn + string"

definition subp :: "lxc \<Rightarrow> command \<Rightarrow> command list \<Rightarrow> (exn + string) \<times> command list" where
  "subp b args log = (b log args, log @ [args])"

text \<open>
  \<^verbatim>\<open>re.findall(p + '(.*)', text)\<close> for a literal \<open>p\<close>: scanning from the left, every place
  where \<open>p\<close> starts yields the rest of its line (\<^verbatim>\<open>.\<close> stops at a line feed), and the scan
  goes on behind that match.
\<close>

function findall :: "string \<Rightarrow> string \<Rightarrow> string list" where
  "findall p [] = []"
| "findall p (c # cs) =
     (if prefix p (c # cs)
      then takeWhile (\<lambda>x. x \<noteq> CHR 0x0A) (drop (length p) (c # cs))
             # findall p (dropWhile (\<lambda>x. x \<noteq> CHR 0x0A) (drop (length p - 1) cs))
      else findall p cs)"
  by pat_completeness auto
termination
proof (relation "measure (\<lambda>(p, s). length s)")
  fix p :: string and c :: char and cs :: string
  have "length (dropWhile (\<lambda>x. x \<noteq> CHR 0x0A) (drop (length p - 1) cs)) \<le> length cs"
    by (rule order_trans [OF length_dropWhile_le]) simp
  then show "((p, dropWhile (\<lambda>x. x \<noteq> CHR 0x0A) (drop (length p - 1) cs)), (p, c # cs))
      \<in> measure (\<lambda>(p, s). length s)"
    by simp
qed simp_all

text \<open>The properties \<^verbatim>\<open>LXDInstance.state\<close> and \<^verbatim>\<open>LXDInstance.ephemeral\<close>.\<close>

definition LXDInstance_state :: "lxc \<Rightarrow> string \<Rightarrow> command list \<Rightarrow> (exn + string) \<times> command list" where
  "LXDInstance_state b name =
     bnd (subp b [''lxc'', ''info'', name])
       (\<lambda>result. case findall ''Status: '' result of
                    [] \<Rightarrow> ret ''Unknown''
                  | status # others \<Rightarrow> ret status)"

definition LXDInstance_ephemeral :: "lxc \<Rightarrow> string \<Rightarrow> command list \<Rightarrow> (exn + bool) \<times> command list" where
  "LXDInstance_ephemeral b name =
     bnd (subp b [''lxc'', ''info'', name])
       (\<lambda>result. case findall ''Type: '' result of
                    [] \<Rightarrow> ret False
                  | info_type # others \<Rightarrow> ret (info_type = ''ephemeral''))"

text \<open>
  \<^verbatim>\<open>wait_for_stop\<close> has an empty body in this class. \<^verbatim>\<open>wait\<close> calls
  \<^verbatim>\<open>self._wait_for_system()\<close> of the base class, which is not among the sources: it is
  the parameter \<open>wait_for_system\<close>.
\<close>

definition LXDInstance_wait_for_stop :: "command list \<Rightarrow> (exn + unit) \<times> command list" where
  "LXDInstance_wait_for_stop = ret ()"

definition LXDInstance_wait ::
  "(command list \<Rightarrow> (exn + unit) \<times> command list) \<Rightarrow> command list \<Rightarrow> (exn + unit) \<times> command list"
where
  "LXDInstance_wait wait_for_system = wait_for_system"

definition LXDInstance_shutdown ::
  "lxc \<Rightarrow> string \<Rightarrow> bool \<Rightarrow> command list \<Rightarrow> (exn + unit) \<times> command list"
where
  "LXDInstance_shutdown b name wait =
     bnd (LXDInstance_state b name)
       (\<lambda>state.
          if state = ''Stopped'' then ret ()
          else bnd (subp b [''lxc'', ''stop'', name, ''--force''])
                 (\<lambda>out. if wait then LXDInstance_wait_for_stop else ret ()))"

definition LXDInstance_start ::
  "lxc \<Rightarrow> (command list \<Rightarrow> (exn + unit) \<times> command list) \<Rightarrow> string \<Rightarrow> bool \<Rightarrow>
   command list \<Rightarrow> (exn + unit) \<times> command list"
where
  "LXDInstance_start b wait_for_system name wait =
     bnd (LXDInstance_state b name)
       (\<lambda>state.
          if state = ''Running'' then ret ()
          else bnd (subp b [''lxc'', ''start'', name])
                 (\<lambda>out. if wait then LXDInstance_wait wait_for_system else ret ()))"

definition LXDInstance_restart ::
  "lxc \<Rightarrow> (command list \<Rightarrow> (exn + unit) \<times> command list) \<Rightarrow> string \<Rightarrow> bool \<Rightarrow>
   command list \<Rightarrow> (exn + unit) \<times> command list"
where
  "LXDInstance_restart b wait_for_system name wait =
     bnd (LXDInstance_shutdown b name True)
       (\<lambda>u. LXDInstance_start b wait_for_system name wait)"

section \<open>Notions used in the statements\<close>

subsection \<open>GCE\<close>

text \<open>
  One round of the loop of \<^verbatim>\<open>_wait_for_operation\<close> as seen from outside: five seconds
  pass and one \<^verbatim>\<open>zoneOperations().get\<close> request for the operation is sent.
\<close>

definition poll :: "gce \<Rightarrow> jvalue \<Rightarrow> gce_world \<Rightarrow> gce_world" where
  "poll self nm w = sent (ZoneOperationsGet (gce_project self) (gce_zone self) nm) (sleep 5 w)"

text \<open>
  The round started at \<open>w\<close> observes an operation that is not finished: the request
  succeeds and its \<^verbatim>\<open>status\<close> is present and is not \<^verbatim>\<open>'DONE'\<close>.
\<close>

definition pending :: "compute \<Rightarrow> gce \<Rightarrow> jvalue \<Rightarrow> gce_world \<Rightarrow> bool" where
  "pending c self nm w =
     (case zoneOperations_get c (sleep 5 w) (gce_project self) (gce_zone self) nm of
        Inl e \<Rightarrow> False
      | Inr result \<Rightarrow> (case result ''status'' of None \<Rightarrow> False | Some st \<Rightarrow> st \<noteq> JStr ''DONE''))"

subsection \<open>EC2\<close>

text \<open>
  The parameter names of \<^verbatim>\<open>def launch(self, image_id, instance_type='t2.micro',
  user_data=None, vpc=None, wait=True, **kwargs)\<close>. A keyword argument with one of these
  names is bound to that parameter or refused by Python; it is never an item of
  \<^verbatim>\<open>kwargs\<close>.
\<close>

definition launch_parameters :: "string list" where
  "launch_parameters = [''self'', ''image_id'', ''instance_type'', ''user_data'', ''vpc'', ''wait'']"

text \<open>The argument dictionaries of the \<^verbatim>\<open>create_instances\<close> requests of a record.\<close>

fun sent_args :: "ec2_call list \<Rightarrow> jdict list" where
  "sent_args [] = []"
| "sent_args (CreateInstances args # cs) = args # sent_args cs"
| "sent_args (c # cs) = sent_args cs"

text \<open>
  The record of \<^verbatim>\<open>EC2.snapshot\<close> once the instance has been cleaned (if asked) and shut
  down, and the capture request that follows.
\<close>

definition before_capture :: "ec2_instance \<Rightarrow> bool \<Rightarrow> ec2_call list \<Rightarrow> ec2_call list" where
  "before_capture instance clean log =
     (if clean then log @ [InstanceClean (instance_id instance)] else log)
       @ [InstanceShutdown (instance_id instance) True]"

definition capture :: "ec2 \<Rightarrow> ec2_instance \<Rightarrow> ec2_call" where
  "capture self instance =
     CreateImage (ec2_tag self @ ''-'' @ instance_image_id instance) (instance_id instance)"

subsection \<open>LXD\<close>

text \<open>
  The specification's reading of restart, "shutdown-then-start": the caller runs
  \<^verbatim>\<open>shutdown()\<close> (which waits by default) and, if that returns, \<^verbatim>\<open>start(wait)\<close>.
\<close>

definition shutdown_then_start ::
  "lxc \<Rightarrow> (command list \<Rightarrow> (exn + unit) \<times> command list) \<Rightarrow> string \<Rightarrow> bool \<Rightarrow>
   command list \<Rightarrow> (exn + unit) \<times> command list"
where
  "shutdown_then_start b wait_for_system name wait log =
     (case LXDInstance_shutdown b name True log of
        (Inl e, log') \<Rightarrow> (Inl e, log')
      | (Inr u, log') \<Rightarrow> LXDInstance_start b wait_for_system name wait log')"

section \<open>Example backends\<close>

subsection \<open>GCE\<close>

definition gce0 :: gce where
  "gce0 = \<lparr>gce_tag = ''t1'', gce_project = ''proj'', gce_zone = ''us-central1-a'',
           gce_public_key_content = ''ssh-rsa AAAA''\<rparr>"

definition world0 :: gce_world where
  "world0 = \<lparr>clock = 0, requests = []\<rparr>"

definition operation0 :: jdict where
  "operation0 = [''name'' \<mapsto> JStr ''operation-1'', ''status'' \<mapsto> JStr ''RUNNING'']"

definition final_ok :: jdict where
  "final_ok = [''name'' \<mapsto> JStr ''operation-1'', ''status'' \<mapsto> JStr ''DONE'']"

definition final_error :: jdict where
  "final_error =
     [''name'' \<mapsto> JStr ''operation-1'', ''status'' \<mapsto> JStr ''DONE'',
      ''error'' \<mapsto> JObj [(''errors'', JArr [JObj [(''code'', JStr ''QUOTA_EXCEEDED'')]])]]"

definition instance0 :: jvalue where
  "instance0 = JObj
     [(''name'', JStr ''t1''),
      (''networkInterfaces'', JArr [JObj
         [(''accessConfigs'', JArr [JObj [(''natIP'', JStr ''203.0.113.7'')]])]])]"

text \<open>A project whose operation never leaves \<^verbatim>\<open>RUNNING\<close>.\<close>

definition never_done :: compute where
  "never_done =
     \<lparr>instances_insert = (\<lambda>w p z body. Inr operation0),
      zoneOperations_get = (\<lambda>w p z nm. Inr operation0),
      instances_get = (\<lambda>w p z i. Inr instance0)\<rparr>"

text \<open>A project whose operation answers \<open>final\<close> from second \<open>n\<close> on, \<^verbatim>\<open>RUNNING\<close> before.\<close>

definition done_after :: "nat \<Rightarrow> jdict \<Rightarrow> compute" where
  "done_after n final =
     \<lparr>instances_insert = (\<lambda>w p z body. Inr operation0),
      zoneOperations_get = (\<lambda>w p z nm. if clock w < n then Inr operation0 else Inr final),
      instances_get = (\<lambda>w p z i. Inr instance0)\<rparr>"

subsection \<open>EC2\<close>

definition ec2_0 :: ec2 where
  "ec2_0 = \<lparr>ec2_tag = ''tag1'', ec2_key_pair = \<lparr>kp_name = ''key1''\<rparr>\<rparr>"

definition boto_1 :: boto_instance where
  "boto_1 = \<lparr>boto_id = ''i-1'', boto_image_id = ''ami-1''\<rparr>"

definition instance_1 :: ec2_instance where
  "instance_1 = \<lparr>inst_key_pair = \<lparr>kp_name = ''key1''\<rparr>, inst_instance = boto_1\<rparr>"

definition vpc_1 :: vpc where
  "vpc_1 = \<lparr>vpc_id = ''vpc-1''\<rparr>"

text \<open>
  A region where nothing fails: every VPC has the subnet \<^verbatim>\<open>subnet-1\<close> and the security
  group \<^verbatim>\<open>sg-1\<close>, a launch creates \<^verbatim>\<open>i-1\<close>, a capture yields \<^verbatim>\<open>ami-2\<close>.
\<close>

definition friendly :: ec2_backend where
  "friendly =
     \<lparr>fails = (\<lambda>log c. None),
      subnet_ids = (\<lambda>log v. [''subnet-1'']),
      security_group_ids = (\<lambda>log v. [''sg-1'']),
      instances_created = (\<lambda>log args. [boto_1]),
      image_response = (\<lambda>log name i. [''ImageId'' \<mapsto> JStr ''ami-2''])\<rparr>"

fun is_capture :: "ec2_call \<Rightarrow> bool" where
  "is_capture (CreateImage name i) = True"
| "is_capture c = False"

text \<open>The same region, except that \<^verbatim>\<open>create_image\<close> always raises.\<close>

definition capture_fails :: ec2_backend where
  "capture_fails =
     friendly\<lparr>fails := (\<lambda>log c. if is_capture c then Some (ExternalError ''ClientError'') else None)\<rparr>"

fun is_image_waiter :: "ec2_call \<Rightarrow> bool" where
  "is_image_waiter (WaiterImageAvailable ids) = True"
| "is_image_waiter c = False"

text \<open>The same region, except that the \<^verbatim>\<open>image_available\<close> waiter always raises.\<close>

definition waiter_fails :: ec2_backend where
  "waiter_fails =
     friendly\<lparr>fails := (\<lambda>log c. if is_image_waiter c then Some (ExternalError ''WaiterError'') else None)\<rparr>"

text \<open>An account with two VPCs, and ids numbered by tally marks.\<close>

definition account0 :: account where
  "account0 = \<lparr>Vpcs =
     [\<lparr>VpcId = ''vpc-a'', NameTag = ''default'', CidrBlock = ''172.31.0.0/16''\<rparr>,
      \<lparr>VpcId = ''vpc-b'', NameTag = ''other'', CidrBlock = ''10.0.0.0/16''\<rparr>]\<rparr>"

definition tally_id :: "account \<Rightarrow> string" where
  "tally_id a = ''vpc-'' @ replicate (length (Vpcs a)) CHR ''I''"

subsection \<open>LXD\<close>

text \<open>What \<^verbatim>\<open>lxc info c1\<close> prints for a container with the given status.\<close>

definition info_text :: "string \<Rightarrow> string" where
  "info_text status =
     ''Name: c1'' @ [CHR 0x0A] @ ''Remote: unix://'' @ [CHR 0x0A]
       @ ''Status: '' @ status @ [CHR 0x0A] @ ''Type: persistent'' @ [CHR 0x0A]"

text \<open>The status of container \<^verbatim>\<open>c1\<close> after the commands of a record.\<close>

fun status_after :: "command list \<Rightarrow> string \<Rightarrow> string" where
  "status_after [] s = s"
| "status_after (c # cs) s =
     status_after cs
       (if c = [''lxc'', ''stop'', ''c1'', ''--force''] then ''Stopped''
        else if c = [''lxc'', ''start'', ''c1''] then ''Running'' else s)"

text \<open>A host with the container \<^verbatim>\<open>c1\<close>, in the given status at first.\<close>

definition container :: "string \<Rightarrow> lxc" where
  "container initial log cmd =
     (if cmd = [''lxc'', ''info'', ''c1''] then Inr (info_text (status_after log initial))
      else Inr [])"

text \<open>A host whose \<^verbatim>\<open>lxc info\<close> prints one line without any field.\<close>

definition garbled :: lxc where
  "garbled log cmd = Inr (''Error: not found'' @ [CHR 0x0A])"

section \<open>The wait loop of GCE\<close>

lemma pendingE:
  assumes "pending c self nm w"
  obtains result st where
    "zoneOperations_get c (sleep 5 w) (gce_project self) (gce_zone self) nm = Inr result"
    "result ''status'' = Some st" "st \<noteq> JStr ''DONE''"
  using assms by (auto simp: pending_def split: sum.splits option.splits)

text \<open>A round that observes an unfinished operation leads to the next round.\<close>

lemma wait_step:
  assumes nm: "operation ''name'' = Some nm" and p: "pending c self nm w"
  shows "GCE_wait_for_operation c self operation w
           = GCE_wait_for_operation c self operation (poll self nm w)"
proof -
  from p obtain result st where
    "zoneOperations_get c (sleep 5 w) (gce_project self) (gce_zone self) nm = Inr result"
    "result ''status'' = Some st" "st \<noteq> JStr ''DONE''"
    by (rule pendingE)
  with nm show ?thesis
    by (subst GCE_wait_for_operation.simps) (simp add: poll_def)
qed

text \<open>A round that observes \<^verbatim>\<open>'DONE'\<close> is the last one.\<close>

lemma wait_exit:
  assumes nm: "operation ''name'' = Some nm"
    and r: "zoneOperations_get c (sleep 5 w) (gce_project self) (gce_zone self) nm = Inr result"
    and st: "result ''status'' = Some (JStr ''DONE'')"
  shows "GCE_wait_for_operation c self operation w =
     Some (case result ''error'' of Some err \<Rightarrow> Inl (Exception err) | None \<Rightarrow> Inr result,
           poll self nm w)"
  using assms
  by (subst GCE_wait_for_operation.simps) (simp add: poll_def split: option.splits)

lemma wait_rounds:
  assumes nm: "operation ''name'' = Some nm"
    and pend: "\<forall>j<k. pending c self nm ((poll self nm ^^ j) w)"
  shows "GCE_wait_for_operation c self operation w =
         GCE_wait_for_operation c self operation ((poll self nm ^^ k) w)"
  using pend
proof (induction k)
  case 0
  show ?case by simp
next
  case (Suc k)
  then have "GCE_wait_for_operation c self operation w =
         GCE_wait_for_operation c self operation ((poll self nm ^^ k) w)"
    by simp
  moreover from Suc.prems have "pending c self nm ((poll self nm ^^ k) w)" by simp
  ultimately show ?case
    using nm wait_step [of operation nm c self "(poll self nm ^^ k) w"] by simp
qed

text \<open>
  No run over rounds that all observe an unfinished operation returns: by induction
  over the approximations of the loop.
\<close>

lemma wait_never:
  assumes run: "GCE_wait_for_operation c self operation w = Some r"
    and nm: "operation ''name'' = Some nm"
    and pend: "\<forall>k. pending c self nm ((poll self nm ^^ k) w)"
  shows False
proof -
  have "operation ''name'' = Some nm \<longrightarrow>
        (\<forall>k. pending c self nm ((poll self nm ^^ k) w)) \<longrightarrow> False"
  proof (rule GCE_wait_for_operation.raw_induct
    [where P = "\<lambda>c self operation w r. operation ''name'' = Some nm \<longrightarrow>
        (\<forall>k. pending c self nm ((poll self nm ^^ k) w)) \<longrightarrow> False", OF _ run])
    fix loop c self operation w r
    assume IH: "\<And>c self operation w r. loop c self operation w = Some r \<Longrightarrow>
        operation ''name'' = Some nm \<longrightarrow>
        (\<forall>k. pending c self nm ((poll self nm ^^ k) w)) \<longrightarrow> False"
      and body: "(let w1 = sleep 5 w in
      case operation ''name'' of
        None \<Rightarrow> Some (Inl (KeyError ''name''), w1)
      | Some nm \<Rightarrow>
          (let w2 = sent (ZoneOperationsGet (gce_project self) (gce_zone self) nm) w1 in
           case zoneOperations_get c w1 (gce_project self) (gce_zone self) nm of
             Inl e \<Rightarrow> Some (Inl e, w2)
           | Inr result \<Rightarrow>
               (case result ''status'' of
                  None \<Rightarrow> Some (Inl (KeyError ''status''), w2)
                | Some st \<Rightarrow>
                    if st = JStr ''DONE'' then
                      (case result ''error'' of
                         Some err \<Rightarrow> Some (Inl (Exception err), w2)
                       | None \<Rightarrow> Some (Inr result, w2))
                    else loop c self operation w2))) = Some r"
    show "operation ''name'' = Some nm \<longrightarrow>
          (\<forall>k. pending c self nm ((poll self nm ^^ k) w)) \<longrightarrow> False"
    proof (intro impI)
      assume nm: "operation ''name'' = Some nm"
        and pend: "\<forall>k. pending c self nm ((poll self nm ^^ k) w)"
      from pend have "pending c self nm ((poll self nm ^^ 0) w)" by (rule spec)
      then have p0: "pending c self nm w" by simp
      have pk: "\<forall>k. pending c self nm ((poll self nm ^^ k) (poll self nm w))"
      proof
        fix k
        from pend have "pending c self nm ((poll self nm ^^ Suc k) w)" by (rule spec)
        then show "pending c self nm ((poll self nm ^^ k) (poll self nm w))"
          by (simp only: funpow_Suc_right o_apply)
      qed
      from p0 obtain result st where
        "zoneOperations_get c (sleep 5 w) (gce_project self) (gce_zone self) nm = Inr result"
        "result ''status'' = Some st" "st \<noteq> JStr ''DONE''"
        by (rule pendingE)
      with body nm have "loop c self operation (poll self nm w) = Some r"
        by (simp add: poll_def)
      with IH nm pk show False by blast
    qed
  qed
  with nm pend show False by blast
qed

lemma pending_never_done: "pending never_done self nm w"
  by (simp add: pending_def never_done_def operation0_def)

lemma operation0_name: "operation0 ''name'' = Some (JStr ''operation-1'')"
  by (simp add: operation0_def)

text \<open>
  Claim C1, as the code has it. \<^verbatim>\<open>GCE._wait_for_operation\<close> has no deadline: when every
  round finds the operation unfinished (the request succeeds and the status is not
  \<^verbatim>\<open>'DONE'\<close>), the call never returns and never raises; it keeps sleeping five seconds
  and polling.
\<close>

theorem GCE_wait_for_operation_no_deadline:
  assumes "operation ''name'' = Some nm"
    and "\<forall>k. pending c self nm ((poll self nm ^^ k) w)"
  shows "GCE_wait_for_operation c self operation w = None"
proof (cases "GCE_wait_for_operation c self operation w")
  case None
  then show ?thesis .
next
  case (Some r)
  then have False using assms by (rule wait_never)
  then show ?thesis ..
qed

theorem GCE_wait_for_operation_no_deadline_witness:
  "operation0 ''name'' = Some (JStr ''operation-1'')
   \<and> (\<forall>k. pending never_done gce0 (JStr ''operation-1'')
            ((poll gce0 (JStr ''operation-1'') ^^ k) \<lparr>clock = 60, requests = []\<rparr>))
   \<and> GCE_wait_for_operation never_done gce0 operation0 \<lparr>clock = 60, requests = []\<rparr> = None"
proof -
  have p: "\<forall>k. pending never_done gce0 (JStr ''operation-1'')
            ((poll gce0 (JStr ''operation-1'') ^^ k) \<lparr>clock = 60, requests = []\<rparr>)"
    by (simp add: pending_never_done)
  from operation0_name p
  have "GCE_wait_for_operation never_done gce0 operation0 \<lparr>clock = 60, requests = []\<rparr> = None"
    by (rule GCE_wait_for_operation_no_deadline)
  with operation0_name p show ?thesis by simp
qed

text \<open>
  The claim as the specification states it fails: with an operation that stays
  \<^verbatim>\<open>RUNNING\<close>, the wait started at time 0 does not come back, at no deadline.
\<close>

theorem GCE_wait_for_operation_counterexample:
  "GCE_wait_for_operation never_done gce0 operation0 world0 = None"
proof (cases "GCE_wait_for_operation never_done gce0 operation0 world0")
  case None
  then show ?thesis .
next
  case (Some r)
  moreover note operation0_name
  moreover have "\<forall>k. pending never_done gce0 (JStr ''operation-1'')
      ((poll gce0 (JStr ''operation-1'') ^^ k) world0)"
    by (simp add: pending_never_done)
  ultimately have False by (rule wait_never)
  then show ?thesis ..
qed

text \<open>
  Claim C7. When the rounds before round \<open>k\<close> find the operation unfinished and round
  \<open>k\<close> finds it \<^verbatim>\<open>'DONE'\<close>, the wait ends in that round: if the result has an
  \<^verbatim>\<open>error\<close> field the call raises an exception carrying that field, and if it has
  none the call returns the result.
\<close>

theorem GCE_wait_for_operation_terminal:
  assumes nm: "operation ''name'' = Some nm"
    and pend: "\<forall>j<k. pending c self nm ((poll self nm ^^ j) w)"
    and r: "zoneOperations_get c (sleep 5 ((poll self nm ^^ k) w))
              (gce_project self) (gce_zone self) nm = Inr result"
    and st: "result ''status'' = Some (JStr ''DONE'')"
  shows "(\<forall>err. result ''error'' = Some err \<longrightarrow>
            GCE_wait_for_operation c self operation w
              = Some (Inl (Exception err), (poll self nm ^^ Suc k) w))
       \<and> (result ''error'' = None \<longrightarrow>
            GCE_wait_for_operation c self operation w
              = Some (Inr result, (poll self nm ^^ Suc k) w))"
proof -
  have "GCE_wait_for_operation c self operation w =
        GCE_wait_for_operation c self operation ((poll self nm ^^ k) w)"
    using nm pend by (rule wait_rounds)
  also have "\<dots> = Some (case result ''error'' of Some err \<Rightarrow> Inl (Exception err) | None \<Rightarrow> Inr result,
      poll self nm ((poll self nm ^^ k) w))"
    using nm r st by (rule wait_exit)
  finally show ?thesis by simp
qed

lemma pending_done_after:
  "clock w + 5 < n \<Longrightarrow> pending (done_after n final) self nm w"
  by (simp add: pending_def done_after_def operation0_def sleep_def)

lemma clock_poll: "clock ((poll self nm ^^ k) w) = clock w + 5 * k"
  by (induction k) (simp_all add: poll_def sent_def sleep_def)

theorem GCE_wait_for_operation_terminal_witness:
  "GCE_wait_for_operation (done_after 15 final_ok) gce0 operation0 world0
     = Some (Inr final_ok, (poll gce0 (JStr ''operation-1'') ^^ 3) world0)
   \<and> GCE_wait_for_operation (done_after 15 final_error) gce0 operation0 world0
     = Some (Inl (Exception (JObj [(''errors'', JArr [JObj [(''code'', JStr ''QUOTA_EXCEEDED'')]])])),
             (poll gce0 (JStr ''operation-1'') ^^ 3) world0)
   \<and> clock ((poll gce0 (JStr ''operation-1'') ^^ 3) world0) = 15"
proof -
  have p: "\<forall>j<2. pending (done_after 15 final) gce0 (JStr ''operation-1'')
              ((poll gce0 (JStr ''operation-1'') ^^ j) world0)" for final
    by (simp add: pending_done_after clock_poll world0_def)
  have g: "zoneOperations_get (done_after 15 final)
             (sleep 5 ((poll gce0 (JStr ''operation-1'') ^^ 2) world0))
             (gce_project gce0) (gce_zone gce0) (JStr ''operation-1'') = Inr final" for final
    by (simp add: done_after_def sleep_def clock_poll world0_def)
  have "final_ok ''status'' = Some (JStr ''DONE'')" "final_ok ''error'' = None"
    by (simp_all add: final_ok_def)
  with operation0_name p [of final_ok] g [of final_ok]
    GCE_wait_for_operation_terminal
      [of operation0 "JStr ''operation-1''" 2 "done_after 15 final_ok" gce0 world0 final_ok]
  have ok: "GCE_wait_for_operation (done_after 15 final_ok) gce0 operation0 world0
     = Some (Inr final_ok, (poll gce0 (JStr ''operation-1'') ^^ 3) world0)"
    by (simp add: eval_nat_numeral)
  have "final_error ''status'' = Some (JStr ''DONE'')"
    "final_error ''error'' = Some (JObj [(''errors'', JArr [JObj [(''code'', JStr ''QUOTA_EXCEEDED'')]])])"
    by (simp_all add: final_error_def)
  with operation0_name p [of final_error] g [of final_error]
    GCE_wait_for_operation_terminal
      [of operation0 "JStr ''operation-1''" 2 "done_after 15 final_error" gce0 world0 final_error]
  have err: "GCE_wait_for_operation (done_after 15 final_error) gce0 operation0 world0
     = Some (Inl (Exception (JObj [(''errors'', JArr [JObj [(''code'', JStr ''QUOTA_EXCEEDED'')]])])),
             (poll gce0 (JStr ''operation-1'') ^^ 3) world0)"
    by (simp add: eval_nat_numeral)
  from ok err show ?thesis by (simp add: clock_poll world0_def)
qed

text \<open>\<^verbatim>\<open>GCE.launch\<close> has no \<^verbatim>\<open>return\<close>: whatever it returns is \<^verbatim>\<open>None\<close>.\<close>

lemma GCE_launch_value:
  "GCE_launch c self image_id instance_type user_data wait kwargs w = Some (Inr v, w') \<Longrightarrow> v = JNone"
  by (auto simp: GCE_launch_def Let_def split: sum.splits option.splits prod.splits)

lemma GCE_launch_example:
  "map_option fst (GCE_launch (done_after 0 final_ok) gce0 ''daily-image'' ''n1-standard-1'' None wait [] world0)
     = Some (Inr JNone)"
proof -
  have "GCE_wait_for_operation (done_after 0 final_ok) gce0 operation0 w =
     Some (case final_ok ''error'' of Some err \<Rightarrow> Inl (Exception err) | None \<Rightarrow> Inr final_ok,
           poll gce0 (JStr ''operation-1'') w)" for w
    by (rule wait_exit) (simp_all add: operation0_def done_after_def final_ok_def)
  then have "GCE_wait_for_operation (done_after 0 final_ok) gce0 operation0 w =
     Some (Inr final_ok, poll gce0 (JStr ''operation-1'') w)" for w
    by (simp add: final_ok_def)
  then show ?thesis
    by (simp add: GCE_launch_def Let_def done_after_def nat_ip_def instance0_def)
qed

section \<open>Launching: what the caller gets back\<close>

lemma EC2_launch_handle:
  assumes args: "launch_args b self image_id instance_type user_data vpc kwargs log = (Inr args, log1)"
    and ok: "fails b log1 (CreateInstances args) = None"
    and inst: "instances_created b log1 args = first # others"
    and wt: "wait \<longrightarrow> fails b (log1 @ [CreateInstances args]) (InstanceWait (boto_id first)) = None"
  shows "EC2_launch b self image_id instance_type user_data vpc wait kwargs log =
     (Inr \<lparr>inst_key_pair = ec2_key_pair self, inst_instance = first\<rparr>,
      log1 @ CreateInstances args # (if wait then [InstanceWait (boto_id first)] else []))"
  using assms
  by (simp add: EC2_launch_def bnd_def request_def ret_def instance_id_def)

lemma launch_args_None:
  "launch_args b self image_id instance_type user_data None kwargs log =
     (Inr (add_kwargs kwargs (named_args self image_id instance_type user_data)), log)"
  by (simp add: launch_args_def ret_def)

text \<open>
  Claim C2, as the code has it. \<^verbatim>\<open>EC2.launch\<close> returns a handle around the first
  instance the backend created, carrying that instance's id, with \<^verbatim>\<open>wait\<close> true or
  false, whenever the arguments can be assembled, \<^verbatim>\<open>create_instances\<close> does not raise
  and creates at least one instance, and (for \<^verbatim>\<open>wait\<close> true) the wait does not raise.
  \<^verbatim>\<open>GCE.launch\<close> returns no handle: whenever it returns, the value is \<^verbatim>\<open>None\<close>.
\<close>

theorem launch_returns_handle_on_EC2:
  "(\<forall>args log1 first others.
      launch_args b self image_id instance_type user_data vpc kwargs log = (Inr args, log1)
      \<and> fails b log1 (CreateInstances args) = None
      \<and> instances_created b log1 args = first # others
      \<and> (wait \<longrightarrow> fails b (log1 @ [CreateInstances args]) (InstanceWait (boto_id first)) = None)
      \<longrightarrow> fst (EC2_launch b self image_id instance_type user_data vpc wait kwargs log)
            = Inr \<lparr>inst_key_pair = ec2_key_pair self, inst_instance = first\<rparr>
          \<and> instance_id \<lparr>inst_key_pair = ec2_key_pair self, inst_instance = first\<rparr> = boto_id first)
   \<and> (\<forall>v w'. GCE_launch c gce_self gce_image gce_type gce_data gce_wait gce_kwargs w = Some (Inr v, w')
         \<longrightarrow> v = JNone)"
proof (intro conjI allI impI)
  fix args log1 first others
  assume "launch_args b self image_id instance_type user_data vpc kwargs log = (Inr args, log1)
      \<and> fails b log1 (CreateInstances args) = None
      \<and> instances_created b log1 args = first # others
      \<and> (wait \<longrightarrow> fails b (log1 @ [CreateInstances args]) (InstanceWait (boto_id first)) = None)"
  then have "EC2_launch b self image_id instance_type user_data vpc wait kwargs log =
     (Inr \<lparr>inst_key_pair = ec2_key_pair self, inst_instance = first\<rparr>,
      log1 @ CreateInstances args # (if wait then [InstanceWait (boto_id first)] else []))"
    by (intro EC2_launch_handle) simp_all
  then show "fst (EC2_launch b self image_id instance_type user_data vpc wait kwargs log)
            = Inr \<lparr>inst_key_pair = ec2_key_pair self, inst_instance = first\<rparr>"
    by simp
next
  fix args log1 first others
  show "instance_id \<lparr>inst_key_pair = ec2_key_pair self, inst_instance = first\<rparr> = boto_id first"
    by (simp add: instance_id_def)
next
  fix v w'
  assume "GCE_launch c gce_self gce_image gce_type gce_data gce_wait gce_kwargs w = Some (Inr v, w')"
  then show "v = JNone" by (rule GCE_launch_value)
qed

theorem launch_returns_handle_on_EC2_witness:
  "fst (EC2_launch friendly ec2_0 ''ami-1'' ''t2.micro'' None None True [] []) = Inr instance_1
   \<and> fst (EC2_launch friendly ec2_0 ''ami-1'' ''t2.micro'' None None False [] []) = Inr instance_1
   \<and> instance_id instance_1 = ''i-1''
   \<and> map_option fst (GCE_launch (done_after 0 final_ok) gce0 ''daily-image'' ''n1-standard-1''
         None False [] world0) = Some (Inr JNone)"
proof -
  have a: "launch_args friendly ec2_0 ''ami-1'' ''t2.micro'' None None [] []
         = (Inr (add_kwargs [] (named_args ec2_0 ''ami-1'' ''t2.micro'' None)), [])"
    by (rule launch_args_None)
  have f: "fails friendly log c = None" for log c
    by (simp add: friendly_def)
  have i: "instances_created friendly log args = boto_1 # []" for log args
    by (simp add: friendly_def)
  have h: "\<lparr>inst_key_pair = ec2_key_pair ec2_0, inst_instance = boto_1\<rparr> = instance_1"
    by (simp add: ec2_0_def instance_1_def)
  from a f i launch_returns_handle_on_EC2
    [of friendly ec2_0 "''ami-1''" "''t2.micro''" None None "[]" "[]" True]
  have t: "fst (EC2_launch friendly ec2_0 ''ami-1'' ''t2.micro'' None None True [] []) = Inr instance_1"
    by (simp add: h)
  from a f i launch_returns_handle_on_EC2
    [of friendly ec2_0 "''ami-1''" "''t2.micro''" None None "[]" "[]" False]
  have u: "fst (EC2_launch friendly ec2_0 ''ami-1'' ''t2.micro'' None None False [] []) = Inr instance_1"
    by (simp add: h)
  have "instance_id instance_1 = ''i-1''"
    by (simp add: instance_id_def instance_1_def boto_1_def)
  with t u GCE_launch_example show ?thesis by simp
qed

text \<open>
  The claim as the specification states it fails on GCE: a launch that the project
  accepts and whose operation is done at the first poll returns \<^verbatim>\<open>None\<close>, no handle.
\<close>

theorem GCE_launch_counterexample:
  "map_option fst (GCE_launch (done_after 0 final_ok) gce0 ''daily-image'' ''n1-standard-1''
      None True [] world0) = Some (Inr JNone)"
  by (rule GCE_launch_example)

section \<open>Launching: the request sent to EC2\<close>

lemma sent_args_append: "sent_args (xs @ ys) = sent_args xs @ sent_args ys"
  by (induction xs rule: sent_args.induct) simp_all

text \<open>The loop over \<^verbatim>\<open>kwargs\<close> leaves every other key alone and stores every pair.\<close>

lemma add_kwargs_notin:
  "k \<notin> fst ` set kwargs \<Longrightarrow> add_kwargs kwargs args k = args k"
  unfolding add_kwargs_def
proof (induction kwargs arbitrary: args)
  case Nil
  show ?case by simp
next
  case (Cons kv kwargs)
  obtain k' v' where kv: "kv = (k', v')" by (cases kv)
  with Cons.prems have ne: "k' \<noteq> k" and notin: "k \<notin> fst ` set kwargs" by auto
  have "fold setitem (kv # kwargs) args k = fold setitem kwargs (args(k' \<mapsto> v')) k"
    by (simp add: kv)
  also from notin have "\<dots> = (args(k' \<mapsto> v')) k" by (rule Cons.IH)
  also from ne have "\<dots> = args k" by simp
  finally show ?case .
qed

lemma add_kwargs_in:
  "distinct (map fst kwargs) \<Longrightarrow> (k, v) \<in> set kwargs \<Longrightarrow> add_kwargs kwargs args k = Some v"
proof (induction kwargs arbitrary: args)
  case Nil
  then show ?case by simp
next
  case (Cons kv kwargs)
  obtain k' v' where kv: "kv = (k', v')" by (cases kv)
  have step: "add_kwargs (kv # kwargs) args = add_kwargs kwargs (args(k' \<mapsto> v'))"
    by (simp add: add_kwargs_def kv)
  show ?case
  proof (cases "(k, v) \<in> set kwargs")
    case True
    with Cons.prems have "add_kwargs kwargs (args(k' \<mapsto> v')) k = Some v"
      by (intro Cons.IH) simp_all
    with step show ?thesis by simp
  next
    case False
    with Cons.prems kv have eq: "k' = k" "v' = v" by auto
    with Cons.prems kv have "k \<notin> fst ` set kwargs" by simp
    then have "add_kwargs kwargs (args(k \<mapsto> v)) k = (args(k \<mapsto> v)) k"
      by (rule add_kwargs_notin)
    with step eq show ?thesis by simp
  qed
qed

text \<open>What a successful assembly with a VPC has done.\<close>

lemma launch_args_Some_cases:
  assumes "launch_args b self image_id instance_type user_data (Some v) kwargs log = (Inr args, log')"
  obtains s where
    "fails b log (SubnetsAll (vpc_id v)) = None"
    "subnet_ids b log (vpc_id v) = [s]"
    "fails b (log @ [SubnetsAll (vpc_id v)]) (SecurityGroupsAll (vpc_id v)) = None"
    "log' = log @ [SubnetsAll (vpc_id v), SecurityGroupsAll (vpc_id v)]"
    "args = (add_kwargs kwargs (named_args self image_id instance_type user_data))
       (''SubnetId'' \<mapsto> JStr s,
        ''SecurityGroupIds'' \<mapsto>
           JArr (map JStr (security_group_ids b (log @ [SubnetsAll (vpc_id v)]) (vpc_id v))))"
  using assms
  by (auto simp: launch_args_def Let_def bnd_def request_def ret_def throw_def
           split: option.splits list.splits sum.splits prod.splits if_splits)

lemma launch_args_sent:
  "sent_args (snd (launch_args b self image_id instance_type user_data vpc kwargs log)) = sent_args log"
  by (auto simp: launch_args_def Let_def bnd_def request_def ret_def throw_def sent_args_append
           split: option.splits list.splits sum.splits prod.splits)

lemma launch_args_rejects:
  "(fst (launch_args b self image_id instance_type user_data vpc kwargs log) = Inl e) =
   (fst (launch_args b self image_id instance_type user_data vpc [] log) = Inl e)"
  by (auto simp: launch_args_def Let_def bnd_def request_def ret_def throw_def
           split: option.splits list.splits sum.splits prod.splits)

lemma EC2_launch_sent:
  assumes "fst (launch_args b self image_id instance_type user_data vpc kwargs log) = Inr args"
  shows "sent_args (snd (EC2_launch b self image_id instance_type user_data vpc wait kwargs log))
         = sent_args log @ [args]"
proof -
  obtain log1 where l: "launch_args b self image_id instance_type user_data vpc kwargs log = (Inr args, log1)"
    using assms by (cases "launch_args b self image_id instance_type user_data vpc kwargs log") simp
  have "sent_args log1 = sent_args log"
    using launch_args_sent [of b self image_id instance_type user_data vpc kwargs log] l by simp
  with l show ?thesis
    by (auto simp: EC2_launch_def bnd_def request_def ret_def throw_def sent_args_append Let_def
             split: option.splits list.splits)
qed

lemma launch_args_kwargs:
  assumes d: "distinct (map fst kwargs)"
    and r: "fst (launch_args b self image_id instance_type user_data vpc kwargs log) = Inr args"
    and kv: "(k, v) \<in> set kwargs"
    and k: "vpc = None \<or> k \<notin> {''SubnetId'', ''SecurityGroupIds''}"
  shows "args k = Some v"
proof (cases vpc)
  case None
  with r have "args = add_kwargs kwargs (named_args self image_id instance_type user_data)"
    by (simp add: launch_args_None)
  with d kv show ?thesis by (simp add: add_kwargs_in)
next
  case (Some w)
  obtain log1 where
    "launch_args b self image_id instance_type user_data (Some w) kwargs log = (Inr args, log1)"
    using r Some
    by (cases "launch_args b self image_id instance_type user_data (Some w) kwargs log") simp
  then obtain s where
    "args = (add_kwargs kwargs (named_args self image_id instance_type user_data))
       (''SubnetId'' \<mapsto> JStr s,
        ''SecurityGroupIds'' \<mapsto>
           JArr (map JStr (security_group_ids b (log @ [SubnetsAll (vpc_id w)]) (vpc_id w))))"
    by (rule launch_args_Some_cases)
  moreover from k Some have "k \<noteq> ''SubnetId''" "k \<noteq> ''SecurityGroupIds''" by auto
  ultimately have "args k = add_kwargs kwargs (named_args self image_id instance_type user_data) k"
    by simp
  with d kv show ?thesis by (simp add: add_kwargs_in)
qed

lemma friendly_args_vpc:
  "launch_args friendly self image_id instance_type user_data (Some v) kwargs [] =
     (Inr ((add_kwargs kwargs (named_args self image_id instance_type user_data))
             (''SubnetId'' \<mapsto> JStr ''subnet-1'', ''SecurityGroupIds'' \<mapsto> JArr [JStr ''sg-1''])),
      [SubnetsAll (vpc_id v), SecurityGroupsAll (vpc_id v)])"
  by (simp add: launch_args_def bnd_def request_def ret_def friendly_def)

text \<open>
  Claim C8, as the code has it. For extra options that reach \<^verbatim>\<open>kwargs\<close> (distinct keys,
  none of them a parameter name of \<^verbatim>\<open>launch\<close>): whether the assembly of the arguments
  raises, and with what, does not depend on the extra options, so no key is rejected;
  and whenever the assembly succeeds the request is sent with the assembled
  dictionary, which holds every pair of \<^verbatim>\<open>kwargs\<close> with its given value, except that
  with a VPC the keys \<^verbatim>\<open>SubnetId\<close> and \<^verbatim>\<open>SecurityGroupIds\<close> hold the VPC's only subnet and
  its security groups.
\<close>

theorem EC2_launch_kwargs_reach_request:
  assumes "distinct (map fst kwargs)"
    and "\<forall>k \<in> set (map fst kwargs). k \<notin> set launch_parameters"
  shows "(\<forall>e. (fst (launch_args b self image_id instance_type user_data vpc kwargs log) = Inl e)
             = (fst (launch_args b self image_id instance_type user_data vpc [] log) = Inl e))
       \<and> (\<forall>args. fst (launch_args b self image_id instance_type user_data vpc kwargs log) = Inr args
            \<longrightarrow> sent_args (snd (EC2_launch b self image_id instance_type user_data vpc wait kwargs log))
                  = sent_args log @ [args]
               \<and> (\<forall>(k, v) \<in> set kwargs.
                     vpc = None \<or> k \<notin> {''SubnetId'', ''SecurityGroupIds''} \<longrightarrow> args k = Some v)
               \<and> (\<forall>w. vpc = Some w \<longrightarrow>
                     (\<exists>s. subnet_ids b log (vpc_id w) = [s] \<and> args ''SubnetId'' = Some (JStr s))
                     \<and> args ''SecurityGroupIds''
                         = Some (JArr (map JStr
                             (security_group_ids b (log @ [SubnetsAll (vpc_id w)]) (vpc_id w))))))"
proof (intro conjI allI impI ballI)
  fix e
  show "(fst (launch_args b self image_id instance_type user_data vpc kwargs log) = Inl e)
             = (fst (launch_args b self image_id instance_type user_data vpc [] log) = Inl e)"
    by (rule launch_args_rejects)
next
  fix args
  assume "fst (launch_args b self image_id instance_type user_data vpc kwargs log) = Inr args"
  then show "sent_args (snd (EC2_launch b self image_id instance_type user_data vpc wait kwargs log))
           = sent_args log @ [args]"
    by (rule EC2_launch_sent)
next
  fix args x
  assume r: "fst (launch_args b self image_id instance_type user_data vpc kwargs log) = Inr args"
    and x: "x \<in> set kwargs"
  obtain k v where kv: "x = (k, v)" by (cases x)
  have "vpc = None \<or> k \<notin> {''SubnetId'', ''SecurityGroupIds''} \<longrightarrow> args k = Some v"
  proof
    assume "vpc = None \<or> k \<notin> {''SubnetId'', ''SecurityGroupIds''}"
    with assms(1) r x kv show "args k = Some v"
      by (intro launch_args_kwargs
            [of kwargs b self image_id instance_type user_data vpc log args k v]) simp_all
  qed
  with kv show "case x of (k, v) \<Rightarrow>
      vpc = None \<or> k \<notin> {''SubnetId'', ''SecurityGroupIds''} \<longrightarrow> args k = Some v"
    by (simp only: prod.case)
next
  fix args w
  assume r: "fst (launch_args b self image_id instance_type user_data vpc kwargs log) = Inr args"
    and v: "vpc = Some w"
  obtain log1 where
    "launch_args b self image_id instance_type user_data (Some w) kwargs log = (Inr args, log1)"
    using r v
    by (cases "launch_args b self image_id instance_type user_data (Some w) kwargs log") simp
  then obtain s where s: "subnet_ids b log (vpc_id w) = [s]"
    and a: "args = (add_kwargs kwargs (named_args self image_id instance_type user_data))
       (''SubnetId'' \<mapsto> JStr s,
        ''SecurityGroupIds'' \<mapsto>
           JArr (map JStr (security_group_ids b (log @ [SubnetsAll (vpc_id w)]) (vpc_id w))))"
    by (rule launch_args_Some_cases)
  from s a show "\<exists>s. subnet_ids b log (vpc_id w) = [s] \<and> args ''SubnetId'' = Some (JStr s)"
    by simp
  from a show "args ''SecurityGroupIds''
                = Some (JArr (map JStr
                    (security_group_ids b (log @ [SubnetsAll (vpc_id w)]) (vpc_id w))))"
    by simp
qed

theorem EC2_launch_kwargs_reach_request_witness:
  "map (\<lambda>args. (args ''EbsOptimized'', args ''Monitoring'', args ''SubnetId'', args ''SecurityGroupIds''))
     (sent_args (snd (EC2_launch friendly ec2_0 ''ami-1'' ''t2.micro'' None (Some vpc_1) False
        [(''EbsOptimized'', JBool True), (''Monitoring'', JObj [(''Enabled'', JBool False)])] [])))
   = [(Some (JBool True), Some (JObj [(''Enabled'', JBool False)]),
       Some (JStr ''subnet-1''), Some (JArr [JStr ''sg-1'']))]
   \<and> fst (launch_args friendly ec2_0 ''ami-1'' ''t2.micro'' None (Some vpc_1)
        [(''EbsOptimized'', JBool True), (''Monitoring'', JObj [(''Enabled'', JBool False)])] [])
      \<noteq> Inl TypeError"
proof -
  let ?kwargs = "[(''EbsOptimized'', JBool True), (''Monitoring'', JObj [(''Enabled'', JBool False)])]"
  let ?args = "(add_kwargs ?kwargs (named_args ec2_0 ''ami-1'' ''t2.micro'' None))
             (''SubnetId'' \<mapsto> JStr ''subnet-1'', ''SecurityGroupIds'' \<mapsto> JArr [JStr ''sg-1''])"
  have d: "distinct (map fst ?kwargs)" by simp
  have p: "\<forall>k \<in> set (map fst ?kwargs). k \<notin> set launch_parameters"
    by (simp add: launch_parameters_def)
  have r: "fst (launch_args friendly ec2_0 ''ami-1'' ''t2.micro'' None (Some vpc_1) ?kwargs []) = Inr ?args"
    by (simp add: friendly_args_vpc)
  have n: "fst (launch_args friendly ec2_0 ''ami-1'' ''t2.micro'' None (Some vpc_1) [] []) \<noteq> Inl TypeError"
    by (simp add: friendly_args_vpc)
  have f: "subnet_ids friendly log v = [''subnet-1'']" "security_group_ids friendly log v = [''sg-1'']"
    for log v
    by (simp_all add: friendly_def)
  note t = EC2_launch_kwargs_reach_request
    [OF d p, of friendly ec2_0 "''ami-1''" "''t2.micro''" None "Some vpc_1" "[]" False]
  from t n
  have e: "fst (launch_args friendly ec2_0 ''ami-1'' ''t2.micro'' None (Some vpc_1) ?kwargs [])
      \<noteq> Inl TypeError"
    by blast
  from t r
  have s: "sent_args (snd (EC2_launch friendly ec2_0 ''ami-1'' ''t2.micro'' None (Some vpc_1) False ?kwargs []))
           = sent_args [] @ [?args]"
    and k: "\<forall>(k, v) \<in> set ?kwargs. Some vpc_1 = None \<or> k \<notin> {''SubnetId'', ''SecurityGroupIds''} \<longrightarrow> ?args k = Some v"
    and w: "\<forall>w. Some vpc_1 = Some w \<longrightarrow>
              (\<exists>s. subnet_ids friendly [] (vpc_id w) = [s] \<and> ?args ''SubnetId'' = Some (JStr s))
              \<and> ?args ''SecurityGroupIds''
                  = Some (JArr (map JStr (security_group_ids friendly ([] @ [SubnetsAll (vpc_id w)]) (vpc_id w))))"
    by blast+
  from k have "?args ''EbsOptimized'' = Some (JBool True)"
    and "?args ''Monitoring'' = Some (JObj [(''Enabled'', JBool False)])"
    by simp_all
  moreover from w have "?args ''SubnetId'' = Some (JStr ''subnet-1'')"
    and "?args ''SecurityGroupIds'' = Some (JArr [JStr ''sg-1''])"
    by (simp_all add: f)
  ultimately show ?thesis using s e by simp
qed

text \<open>
  The claim as the specification states it fails: \<^verbatim>\<open>SubnetId\<close> is not a parameter of
  \<^verbatim>\<open>launch\<close>, yet with a VPC the request carries the VPC's subnet, not the given value.
\<close>

theorem EC2_launch_kwargs_counterexample:
  "map (\<lambda>args. args ''SubnetId'')
     (sent_args (snd (EC2_launch friendly ec2_0 ''ami-1'' ''t2.micro'' None (Some vpc_1) False
        [(''SubnetId'', JStr ''subnet-mine'')] [])))
   = [Some (JStr ''subnet-1'')]"
proof -
  have "fst (launch_args friendly ec2_0 ''ami-1'' ''t2.micro'' None (Some vpc_1)
               [(''SubnetId'', JStr ''subnet-mine'')] [])
      = Inr ((add_kwargs [(''SubnetId'', JStr ''subnet-mine'')]
                (named_args ec2_0 ''ami-1'' ''t2.micro'' None))
             (''SubnetId'' \<mapsto> JStr ''subnet-1'', ''SecurityGroupIds'' \<mapsto> JArr [JStr ''sg-1'']))"
    by (simp add: friendly_args_vpc)
  then have "sent_args (snd (EC2_launch friendly ec2_0 ''ami-1'' ''t2.micro'' None (Some vpc_1) False
        [(''SubnetId'', JStr ''subnet-mine'')] []))
      = sent_args [] @ [(add_kwargs [(''SubnetId'', JStr ''subnet-mine'')]
                (named_args ec2_0 ''ami-1'' ''t2.micro'' None))
             (''SubnetId'' \<mapsto> JStr ''subnet-1'', ''SecurityGroupIds'' \<mapsto> JArr [JStr ''sg-1''])]"
    by (rule EC2_launch_sent)
  then show ?thesis by simp
qed

text \<open>
  Claim C10. The pairs of \<^verbatim>\<open>kwargs\<close> are stored after the dictionary of the named
  parameters is built, so a pair whose key is one of that dictionary's keys replaces
  the value derived from the parameters; and with a VPC, \<^verbatim>\<open>SubnetId\<close> and
  \<^verbatim>\<open>SecurityGroupIds\<close> are stored after the loop, so they hold the VPC's only subnet
  and its security groups whatever \<^verbatim>\<open>kwargs\<close> said.
\<close>

theorem EC2_launch_override_order:
  assumes d: "distinct (map fst kwargs)"
    and r: "fst (launch_args b self image_id instance_type user_data vpc kwargs log) = Inr args"
  shows "(\<forall>(k, v) \<in> set kwargs.
            k \<in> {''ImageId'', ''InstanceType'', ''KeyName'', ''MaxCount'', ''MinCount'',
                  ''TagSpecifications'', ''UserData''} \<longrightarrow> args k = Some v)
       \<and> (\<forall>w. vpc = Some w \<longrightarrow>
            (\<exists>s. subnet_ids b log (vpc_id w) = [s] \<and> args ''SubnetId'' = Some (JStr s))
            \<and> args ''SecurityGroupIds''
                = Some (JArr (map JStr
                    (security_group_ids b (log @ [SubnetsAll (vpc_id w)]) (vpc_id w)))))"
proof (intro conjI allI impI ballI)
  fix x assume x: "x \<in> set kwargs"
  show "case x of (k, v) \<Rightarrow>
          k \<in> {''ImageId'', ''InstanceType'', ''KeyName'', ''MaxCount'', ''MinCount'',
                ''TagSpecifications'', ''UserData''} \<longrightarrow> args k = Some v"
  proof (cases x)
    case (Pair k v)
    { assume "k \<in> {''ImageId'', ''InstanceType'', ''KeyName'', ''MaxCount'', ''MinCount'',
                  ''TagSpecifications'', ''UserData''}"
      then have "k \<notin> {''SubnetId'', ''SecurityGroupIds''}" by auto
      with d r x Pair have "args k = Some v"
        by (intro launch_args_kwargs
              [of kwargs b self image_id instance_type user_data vpc log args k v]) simp_all
    }
    with Pair show ?thesis by (simp only: prod.case) blast
  qed
next
  fix w assume v: "vpc = Some w"
  obtain log1 where
    "launch_args b self image_id instance_type user_data (Some w) kwargs log = (Inr args, log1)"
    using r v
    by (cases "launch_args b self image_id instance_type user_data (Some w) kwargs log") simp
  then obtain s where s: "subnet_ids b log (vpc_id w) = [s]"
    and a: "args = (add_kwargs kwargs (named_args self image_id instance_type user_data))
       (''SubnetId'' \<mapsto> JStr s,
        ''SecurityGroupIds'' \<mapsto>
           JArr (map JStr (security_group_ids b (log @ [SubnetsAll (vpc_id w)]) (vpc_id w))))"
    by (rule launch_args_Some_cases)
  from s a show "\<exists>s. subnet_ids b log (vpc_id w) = [s] \<and> args ''SubnetId'' = Some (JStr s)"
    by simp
  from a show "args ''SecurityGroupIds''
                = Some (JArr (map JStr
                    (security_group_ids b (log @ [SubnetsAll (vpc_id w)]) (vpc_id w))))"
    by simp
qed

theorem EC2_launch_override_order_witness:
  "map (\<lambda>args. (args ''ImageId'', args ''SubnetId'', args ''SecurityGroupIds''))
     (sent_args (snd (EC2_launch friendly ec2_0 ''ami-1'' ''t2.micro'' None (Some vpc_1) False
        [(''ImageId'', JStr ''ami-other''), (''SubnetId'', JStr ''subnet-mine'')] [])))
   = [(Some (JStr ''ami-other''), Some (JStr ''subnet-1''), Some (JArr [JStr ''sg-1'']))]"
proof -
  let ?kwargs = "[(''ImageId'', JStr ''ami-other''), (''SubnetId'', JStr ''subnet-mine'')]"
  let ?args = "(add_kwargs ?kwargs (named_args ec2_0 ''ami-1'' ''t2.micro'' None))
             (''SubnetId'' \<mapsto> JStr ''subnet-1'', ''SecurityGroupIds'' \<mapsto> JArr [JStr ''sg-1''])"
  have d: "distinct (map fst ?kwargs)" by simp
  have r: "fst (launch_args friendly ec2_0 ''ami-1'' ''t2.micro'' None (Some vpc_1) ?kwargs []) = Inr ?args"
    by (simp add: friendly_args_vpc)
  have f: "subnet_ids friendly log v = [''subnet-1'']" "security_group_ids friendly log v = [''sg-1'']"
    for log v
    by (simp_all add: friendly_def)
  from EC2_launch_override_order [OF d r]
  have "?args ''ImageId'' = Some (JStr ''ami-other'')"
    and "?args ''SubnetId'' = Some (JStr ''subnet-1'')"
    and "?args ''SecurityGroupIds'' = Some (JArr [JStr ''sg-1''])"
    by (simp_all add: f)
  moreover from r
  have "sent_args (snd (EC2_launch friendly ec2_0 ''ami-1'' ''t2.micro'' None (Some vpc_1) False ?kwargs []))
           = sent_args [] @ [?args]"
    by (rule EC2_launch_sent)
  ultimately show ?thesis by simp
qed

section \<open>Snapshots on EC2\<close>

lemma snapshot_to_capture:
  assumes "clean \<longrightarrow> fails b log (InstanceClean (instance_id instance)) = None"
    and "fails b (if clean then log @ [InstanceClean (instance_id instance)] else log)
           (InstanceShutdown (instance_id instance) True) = None"
    and "fails b (before_capture instance clean log) (capture self instance) = Some e"
  shows "EC2_snapshot b self instance clean log =
           (Inl e, before_capture instance clean log @ [capture self instance])"
  using assms
  by (cases clean)
     (simp_all add: EC2_snapshot_def before_capture_def capture_def bnd_def request_def ret_def)

lemma snapshot_success_last:
  assumes "EC2_snapshot b self instance clean log = (Inr img, log')"
  shows "last log' = InstanceStart (instance_id instance) True"
  using assms
  by (auto simp: EC2_snapshot_def EC2_wait_for_snapshot_def bnd_def request_def ret_def throw_def
           split: option.splits sum.splits prod.splits if_splits)

lemma start_not_before_capture:
  "InstanceStart i w \<in> set (before_capture instance clean log @ [capture self instance])
     \<Longrightarrow> InstanceStart i w \<in> set log"
  by (auto simp: before_capture_def capture_def split: if_splits)

lemma snapshot_start_sent:
  assumes "InstanceStart (instance_id instance) w
             \<in> set (drop (length log) (snd (EC2_snapshot b self instance clean log)))"
  shows "\<exists>img. fails b (before_capture instance clean log) (capture self instance) = None
          \<and> image_response b (before_capture instance clean log)
                (ec2_tag self @ ''-'' @ instance_image_id instance) (instance_id instance) ''ImageId''
              = Some img
          \<and> EC2_wait_for_snapshot b img (before_capture instance clean log @ [capture self instance])
              = (Inr (), before_capture instance clean log
                   @ [capture self instance, ImageWaitUntilExists img, WaiterImageAvailable [img],
                      ImageReload img])
          \<and> snd (EC2_snapshot b self instance clean log)
              = before_capture instance clean log
                  @ [capture self instance, ImageWaitUntilExists img, WaiterImageAvailable [img],
                     ImageReload img, InstanceStart (instance_id instance) True]"
  using assms
  by (cases clean)
     (auto simp: EC2_snapshot_def EC2_wait_for_snapshot_def before_capture_def capture_def
                 bnd_def request_def ret_def throw_def
           split: option.splits sum.splits prod.splits if_splits)

text \<open>
  Claim C4, as the code has it. When the capture request of \<^verbatim>\<open>EC2.snapshot\<close> raises
  after the instance was shut down, the exception leaves \<^verbatim>\<open>snapshot\<close> at once: the
  capture is the last request sent, and no start of the instance was sent by the
  call. In every run, whatever fails, the call sends a start of the instance only
  after the capture has succeeded, has answered with an image id, and the wait for
  that image (\<^verbatim>\<open>_wait_for_snapshot\<close>) has returned; the start is then the last request.
  A run that returns an image id has the start as its last request.
\<close>

theorem EC2_snapshot_restarts_only_on_success:
  "((clean \<longrightarrow> fails b log (InstanceClean (instance_id instance)) = None)
      \<and> fails b (if clean then log @ [InstanceClean (instance_id instance)] else log)
           (InstanceShutdown (instance_id instance) True) = None
      \<and> fails b (before_capture instance clean log) (capture self instance) = Some e
    \<longrightarrow> EC2_snapshot b self instance clean log =
           (Inl e, before_capture instance clean log @ [capture self instance])
        \<and> (\<forall>w. InstanceStart (instance_id instance) w
                  \<in> set (snd (EC2_snapshot b self instance clean log))
               \<longrightarrow> InstanceStart (instance_id instance) w \<in> set log))
   \<and> (\<forall>img. fst (EC2_snapshot b self instance clean log) = Inr img
        \<longrightarrow> last (snd (EC2_snapshot b self instance clean log))
              = InstanceStart (instance_id instance) True)
   \<and> (\<forall>w. InstanceStart (instance_id instance) w
              \<in> set (drop (length log) (snd (EC2_snapshot b self instance clean log)))
        \<longrightarrow> (\<exists>img. fails b (before_capture instance clean log) (capture self instance) = None
              \<and> image_response b (before_capture instance clean log)
                    (ec2_tag self @ ''-'' @ instance_image_id instance) (instance_id instance)
                    ''ImageId'' = Some img
              \<and> EC2_wait_for_snapshot b img
                    (before_capture instance clean log @ [capture self instance])
                  = (Inr (), before_capture instance clean log
                       @ [capture self instance, ImageWaitUntilExists img,
                          WaiterImageAvailable [img], ImageReload img])
              \<and> snd (EC2_snapshot b self instance clean log)
                  = before_capture instance clean log
                      @ [capture self instance, ImageWaitUntilExists img,
                         WaiterImageAvailable [img], ImageReload img,
                         InstanceStart (instance_id instance) True]))"
proof (intro conjI impI allI)
  assume h: "(clean \<longrightarrow> fails b log (InstanceClean (instance_id instance)) = None)
      \<and> fails b (if clean then log @ [InstanceClean (instance_id instance)] else log)
           (InstanceShutdown (instance_id instance) True) = None
      \<and> fails b (before_capture instance clean log) (capture self instance) = Some e"
  then show r: "EC2_snapshot b self instance clean log =
           (Inl e, before_capture instance clean log @ [capture self instance])"
    by (intro snapshot_to_capture) simp_all
  fix w
  assume "InstanceStart (instance_id instance) w \<in> set (snd (EC2_snapshot b self instance clean log))"
  with r have "InstanceStart (instance_id instance) w
      \<in> set (before_capture instance clean log @ [capture self instance])"
    by simp
  then show "InstanceStart (instance_id instance) w \<in> set log"
    by (rule start_not_before_capture)
next
  fix img
  assume "fst (EC2_snapshot b self instance clean log) = Inr img"
  then have "EC2_snapshot b self instance clean log
      = (Inr img, snd (EC2_snapshot b self instance clean log))"
    by (metis prod.collapse)
  then show "last (snd (EC2_snapshot b self instance clean log))
      = InstanceStart (instance_id instance) True"
    by (rule snapshot_success_last)
next
  fix w
  assume "InstanceStart (instance_id instance) w
              \<in> set (drop (length log) (snd (EC2_snapshot b self instance clean log)))"
  then show "\<exists>img. fails b (before_capture instance clean log) (capture self instance) = None
              \<and> image_response b (before_capture instance clean log)
                    (ec2_tag self @ ''-'' @ instance_image_id instance) (instance_id instance)
                    ''ImageId'' = Some img
              \<and> EC2_wait_for_snapshot b img
                    (before_capture instance clean log @ [capture self instance])
                  = (Inr (), before_capture instance clean log
                       @ [capture self instance, ImageWaitUntilExists img,
                          WaiterImageAvailable [img], ImageReload img])
              \<and> snd (EC2_snapshot b self instance clean log)
                  = before_capture instance clean log
                      @ [capture self instance, ImageWaitUntilExists img,
                         WaiterImageAvailable [img], ImageReload img,
                         InstanceStart (instance_id instance) True]"
    by (rule snapshot_start_sent)
qed

lemma friendly_snapshot:
  "EC2_snapshot friendly ec2_0 instance_1 False [] =
     (Inr (JStr ''ami-2''),
      [InstanceShutdown ''i-1'' True, CreateImage ''tag1-ami-1'' ''i-1'',
       ImageWaitUntilExists (JStr ''ami-2''), WaiterImageAvailable [JStr ''ami-2''],
       ImageReload (JStr ''ami-2''), InstanceStart ''i-1'' True])"
  by (simp add: EC2_snapshot_def EC2_wait_for_snapshot_def bnd_def request_def ret_def friendly_def
        ec2_0_def instance_1_def boto_1_def instance_id_def instance_image_id_def)

lemma waiter_fails_wait:
  "fst (EC2_wait_for_snapshot waiter_fails img log) = Inl (ExternalError ''WaiterError'')"
  by (simp add: EC2_wait_for_snapshot_def bnd_def request_def waiter_fails_def friendly_def)

theorem EC2_snapshot_restarts_only_on_success_witness:
  "EC2_snapshot capture_fails ec2_0 instance_1 False [] =
     (Inl (ExternalError ''ClientError''),
      [InstanceShutdown ''i-1'' True, CreateImage ''tag1-ami-1'' ''i-1''])
   \<and> fst (EC2_snapshot friendly ec2_0 instance_1 False []) = Inr (JStr ''ami-2'')
   \<and> last (snd (EC2_snapshot friendly ec2_0 instance_1 False [])) = InstanceStart ''i-1'' True
   \<and> InstanceStart ''i-1'' True \<notin> set (snd (EC2_snapshot waiter_fails ec2_0 instance_1 False []))"
proof -
  have i: "instance_id instance_1 = ''i-1''"
    by (simp add: instance_id_def instance_1_def boto_1_def)
  have c: "capture ec2_0 instance_1 = CreateImage ''tag1-ami-1'' ''i-1''"
    by (simp add: capture_def ec2_0_def instance_id_def instance_image_id_def instance_1_def boto_1_def)
  have bc: "before_capture instance_1 False [] = [InstanceShutdown ''i-1'' True]"
    by (simp add: before_capture_def i)
  have f: "fails capture_fails log (InstanceShutdown n x) = None"
    "fails capture_fails log (CreateImage n m) = Some (ExternalError ''ClientError'')" for log n m x
    by (simp_all add: capture_fails_def friendly_def)
  have h: "(False \<longrightarrow> fails capture_fails [] (InstanceClean (instance_id instance_1)) = None)
      \<and> fails capture_fails (if False then [] @ [InstanceClean (instance_id instance_1)] else [])
           (InstanceShutdown (instance_id instance_1) True) = None
      \<and> fails capture_fails (before_capture instance_1 False []) (capture ec2_0 instance_1)
           = Some (ExternalError ''ClientError'')"
    by (simp add: f c)
  note failing = EC2_snapshot_restarts_only_on_success
    [of False capture_fails "[]" instance_1 ec2_0 "ExternalError ''ClientError''",
     THEN conjunct1, rule_format, OF h, THEN conjunct1]
  then have one: "EC2_snapshot capture_fails ec2_0 instance_1 False [] =
     (Inl (ExternalError ''ClientError''),
      [InstanceShutdown ''i-1'' True, CreateImage ''tag1-ami-1'' ''i-1''])"
    by (simp add: bc c)
  have two: "fst (EC2_snapshot friendly ec2_0 instance_1 False []) = Inr (JStr ''ami-2'')"
    by (simp add: friendly_snapshot)
  note success = EC2_snapshot_restarts_only_on_success
    [of False friendly "[]" instance_1 ec2_0 "ExternalError ''ClientError''",
     THEN conjunct2, THEN conjunct1, rule_format, OF two]
  then have three: "last (snd (EC2_snapshot friendly ec2_0 instance_1 False [])) = InstanceStart ''i-1'' True"
    by (simp only: i)
  have four: "InstanceStart ''i-1'' True \<notin> set (snd (EC2_snapshot waiter_fails ec2_0 instance_1 False []))"
  proof
    assume "InstanceStart ''i-1'' True \<in> set (snd (EC2_snapshot waiter_fails ec2_0 instance_1 False []))"
    then have mem: "InstanceStart (instance_id instance_1) True
        \<in> set (drop (length []) (snd (EC2_snapshot waiter_fails ec2_0 instance_1 False [])))"
      by (simp add: i)
    note EC2_snapshot_restarts_only_on_success
      [of False waiter_fails "[]" instance_1 ec2_0 "ExternalError ''ClientError''",
       THEN conjunct2, THEN conjunct2, rule_format, OF mem]
    then obtain img where "EC2_wait_for_snapshot waiter_fails img
           (before_capture instance_1 False [] @ [capture ec2_0 instance_1])
         = (Inr (), before_capture instance_1 False []
               @ [capture ec2_0 instance_1, ImageWaitUntilExists img,
                  WaiterImageAvailable [img], ImageReload img])"
      by blast
    then have "fst (EC2_wait_for_snapshot waiter_fails img
           (before_capture instance_1 False [] @ [capture ec2_0 instance_1])) = Inr ()"
      by simp
    then show False by (simp add: waiter_fails_wait)
  qed
  from one two three four show ?thesis by simp
qed

text \<open>
  The claim as the specification states it fails: with a capture that raises, the
  record of \<^verbatim>\<open>snapshot(instance, clean=True)\<close> ends with the capture. The instance was
  shut down and no start follows.
\<close>

theorem EC2_snapshot_counterexample:
  "EC2_snapshot capture_fails ec2_0 instance_1 True [] =
     (Inl (ExternalError ''ClientError''),
      [InstanceClean ''i-1'', InstanceShutdown ''i-1'' True, CreateImage ''tag1-ami-1'' ''i-1''])"
  by (simp add: EC2_snapshot_def bnd_def request_def ret_def capture_fails_def friendly_def
        ec2_0_def instance_1_def boto_1_def instance_id_def instance_image_id_def)

section \<open>Networks by name\<close>

text \<open>
  Claim C9. Two calls of \<^verbatim>\<open>get_or_create_vpc\<close> with the same name, the second on the
  account as the first left it, return the same VPC id; the second call leaves the
  account as it was, so together they add at most one VPC, and afterwards the name
  has as many VPCs as before, or one if it had none.
\<close>

theorem EC2_get_or_create_vpc_idempotent:
  "(let (v1, a1) = EC2_get_or_create_vpc new_id name cidr a;
        (v2, a2) = EC2_get_or_create_vpc new_id name cidr' a1
    in vpc_id v2 = vpc_id v1 \<and> a2 = a1 \<and> length (Vpcs a2) \<le> Suc (length (Vpcs a))
       \<and> length (describe_vpcs name a2) = max 1 (length (describe_vpcs name a)))"
  by (auto simp: EC2_get_or_create_vpc_def VPC_create_def VPC_from_existing_def describe_vpcs_def
           split: list.splits)

theorem EC2_get_or_create_vpc_idempotent_witness:
  "fst (EC2_get_or_create_vpc tally_id ''test-net'' ''192.168.1.0/20'' account0) = \<lparr>vpc_id = ''vpc-II''\<rparr>
   \<and> fst (EC2_get_or_create_vpc tally_id ''test-net'' ''192.168.1.0/20''
           (snd (EC2_get_or_create_vpc tally_id ''test-net'' ''192.168.1.0/20'' account0)))
       = \<lparr>vpc_id = ''vpc-II''\<rparr>
   \<and> length (Vpcs (snd (EC2_get_or_create_vpc tally_id ''test-net'' ''192.168.1.0/20''
           (snd (EC2_get_or_create_vpc tally_id ''test-net'' ''192.168.1.0/20'' account0))))) = 3"
proof -
  have first: "EC2_get_or_create_vpc tally_id ''test-net'' ''192.168.1.0/20'' account0 =
     (\<lparr>vpc_id = ''vpc-II''\<rparr>,
      \<lparr>Vpcs = Vpcs account0
         @ [\<lparr>VpcId = ''vpc-II'', NameTag = ''test-net'', CidrBlock = ''192.168.1.0/20''\<rparr>]\<rparr>)"
    by (simp add: EC2_get_or_create_vpc_def VPC_create_def describe_vpcs_def account0_def tally_id_def)
  obtain v2 a2 where second: "EC2_get_or_create_vpc tally_id ''test-net'' ''192.168.1.0/20''
      \<lparr>Vpcs = Vpcs account0
         @ [\<lparr>VpcId = ''vpc-II'', NameTag = ''test-net'', CidrBlock = ''192.168.1.0/20''\<rparr>]\<rparr> = (v2, a2)"
    by (cases "EC2_get_or_create_vpc tally_id ''test-net'' ''192.168.1.0/20''
      \<lparr>Vpcs = Vpcs account0
         @ [\<lparr>VpcId = ''vpc-II'', NameTag = ''test-net'', CidrBlock = ''192.168.1.0/20''\<rparr>]\<rparr>")
  from EC2_get_or_create_vpc_idempotent
    [of tally_id "''test-net''" "''192.168.1.0/20''" account0 "''192.168.1.0/20''"] first second
  have "vpc_id v2 = ''vpc-II''" and "a2 = \<lparr>Vpcs = Vpcs account0
         @ [\<lparr>VpcId = ''vpc-II'', NameTag = ''test-net'', CidrBlock = ''192.168.1.0/20''\<rparr>]\<rparr>"
    by simp_all
  with first second show ?thesis by (simp add: account0_def)
qed

section \<open>LXD: reading the status text\<close>

text \<open>Without an occurrence of the literal there is no match.\<close>

lemma findall_absent: "\<not> sublist p t \<Longrightarrow> findall p t = []"
proof (induction p t rule: findall.induct)
  case (1 p)
  show ?case by simp
next
  case (2 p c cs)
  from "2.prems" have np: "\<not> prefix p (c # cs)"
    using prefix_imp_sublist by blast
  from "2.prems" have "\<not> sublist p cs"
    by (meson sublist_Cons_right)
  with np "2.IH"(2) show ?case by simp
qed

text \<open>
  The first match is at the first occurrence of the literal: no occurrence starts
  inside \<open>pre\<close> exactly when none lies in \<open>pre\<close> followed by all but the last character
  of the literal.
\<close>

lemma findall_first:
  assumes "\<not> sublist p (pre @ butlast p)" "p \<noteq> []"
  shows "findall p (pre @ p @ after) =
         takeWhile (\<lambda>x. x \<noteq> CHR 0x0A) after # findall p (dropWhile (\<lambda>x. x \<noteq> CHR 0x0A) after)"
  using assms
proof (induction pre)
  case Nil
  then obtain c cs where p: "p = c # cs" by (cases p) auto
  then show ?case by simp
next
  case (Cons a pre)
  have np: "\<not> prefix p (a # pre @ p @ after)"
  proof
    assume "prefix p (a # pre @ p @ after)"
    moreover have "p @ after = butlast p @ ([last p] @ after)"
      using append_butlast_last_id [OF Cons.prems(2)] by (metis append_assoc)
    ultimately have "prefix p ((a # pre @ butlast p) @ ([last p] @ after))"
      by simp
    moreover have "length p \<le> length (a # pre @ butlast p)" by simp
    ultimately have "prefix p (a # pre @ butlast p)"
      by (metis prefix_length_prefix prefixI)
    then have "sublist p ((a # pre) @ butlast p)" by simp
    with Cons.prems(1) show False by blast
  qed
  from Cons.prems(1) have "\<not> sublist p (pre @ butlast p)"
    by (metis append_Cons sublist_Cons_right)
  with Cons.IH Cons.prems(2) np show ?case by simp
qed

lemma state_of_info:
  assumes "b log [''lxc'', ''info'', name] = Inr info"
  shows "LXDInstance_state b name log =
     (Inr (case findall ''Status: '' info of [] \<Rightarrow> ''Unknown'' | status # others \<Rightarrow> status),
      log @ [[''lxc'', ''info'', name]])"
  using assms by (simp add: LXDInstance_state_def bnd_def subp_def ret_def split: list.splits)

lemma ephemeral_of_info:
  assumes "b log [''lxc'', ''info'', name] = Inr info"
  shows "LXDInstance_ephemeral b name log =
     (Inr (case findall ''Type: '' info of
             [] \<Rightarrow> False
           | info_type # others \<Rightarrow> info_type = ''ephemeral''),
      log @ [[''lxc'', ''info'', name]])"
  using assms by (simp add: LXDInstance_ephemeral_def bnd_def subp_def ret_def split: list.splits)

text \<open>
  Claim C6. For every output \<open>info\<close> of the status query: when \<^verbatim>\<open>Status: \<close> occurs in it,
  \<^verbatim>\<open>state\<close> returns what follows its first occurrence up to the end of that line;
  when it does not occur, \<^verbatim>\<open>state\<close> returns \<^verbatim>\<open>'Unknown'\<close>; and when \<^verbatim>\<open>Type: \<close> does not
  occur, \<^verbatim>\<open>ephemeral\<close> returns \<^verbatim>\<open>False\<close>. Whatever the output is, both properties return
  a value and neither raises.
\<close>

theorem LXDInstance_state_falls_back:
  assumes "b log [''lxc'', ''info'', name] = Inr info"
  shows "(\<forall>pre after. info = pre @ ''Status: '' @ after \<and> \<not> sublist ''Status: '' (pre @ ''Status:'')
            \<longrightarrow> LXDInstance_state b name log =
                  (Inr (takeWhile (\<lambda>x. x \<noteq> CHR 0x0A) after), log @ [[''lxc'', ''info'', name]]))
       \<and> (\<not> sublist ''Status: '' info
            \<longrightarrow> LXDInstance_state b name log = (Inr ''Unknown'', log @ [[''lxc'', ''info'', name]]))
       \<and> (\<not> sublist ''Type: '' info
            \<longrightarrow> LXDInstance_ephemeral b name log = (Inr False, log @ [[''lxc'', ''info'', name]]))
       \<and> (\<exists>s. LXDInstance_state b name log = (Inr s, log @ [[''lxc'', ''info'', name]]))
       \<and> (\<exists>e. LXDInstance_ephemeral b name log = (Inr e, log @ [[''lxc'', ''info'', name]]))"
proof (intro conjI allI impI)
  from assms show "\<exists>s. LXDInstance_state b name log = (Inr s, log @ [[''lxc'', ''info'', name]])"
    by (simp add: state_of_info)
next
  from assms show "\<exists>e. LXDInstance_ephemeral b name log = (Inr e, log @ [[''lxc'', ''info'', name]])"
    by (simp add: ephemeral_of_info)
next
  fix pre after
  assume "info = pre @ ''Status: '' @ after \<and> \<not> sublist ''Status: '' (pre @ ''Status:'')"
  then have t: "info = pre @ ''Status: '' @ after"
    and n: "\<not> sublist ''Status: '' (pre @ butlast ''Status: '')" by simp_all
  have "findall ''Status: '' (pre @ ''Status: '' @ after) =
         takeWhile (\<lambda>x. x \<noteq> CHR 0x0A) after
           # findall ''Status: '' (dropWhile (\<lambda>x. x \<noteq> CHR 0x0A) after)"
    using n by (rule findall_first) simp
  with t assms state_of_info [of b log name info]
  show "LXDInstance_state b name log =
          (Inr (takeWhile (\<lambda>x. x \<noteq> CHR 0x0A) after), log @ [[''lxc'', ''info'', name]])"
    by simp
next
  assume "\<not> sublist ''Status: '' info"
  then have "findall ''Status: '' info = []" by (rule findall_absent)
  with assms state_of_info [of b log name info]
  show "LXDInstance_state b name log = (Inr ''Unknown'', log @ [[''lxc'', ''info'', name]])"
    by simp
next
  assume "\<not> sublist ''Type: '' info"
  then have "findall ''Type: '' info = []" by (rule findall_absent)
  with assms ephemeral_of_info [of b log name info]
  show "LXDInstance_ephemeral b name log = (Inr False, log @ [[''lxc'', ''info'', name]])"
    by simp
qed

lemma no_status_before:
  "\<not> sublist ''Status: '' ((''Name: c1'' @ [CHR 0x0A] @ ''Remote: unix://'' @ [CHR 0x0A]) @ ''Status:'')"
  by code_simp

lemma no_field_in_garbled:
  "\<not> sublist ''Status: '' (''Error: not found'' @ [CHR 0x0A])"
  "\<not> sublist ''Type: '' (''Error: not found'' @ [CHR 0x0A])"
  by code_simp+

theorem LXDInstance_state_falls_back_witness:
  "LXDInstance_state (container ''Running'') ''c1'' [] = (Inr ''Running'', [[''lxc'', ''info'', ''c1'']])
   \<and> LXDInstance_state garbled ''c1'' [] = (Inr ''Unknown'', [[''lxc'', ''info'', ''c1'']])
   \<and> LXDInstance_ephemeral garbled ''c1'' [] = (Inr False, [[''lxc'', ''info'', ''c1'']])"
proof -
  have c: "container ''Running'' [] [''lxc'', ''info'', ''c1''] = Inr (info_text ''Running'')"
    by (simp add: container_def)
  have i: "info_text ''Running'' = (''Name: c1'' @ [CHR 0x0A] @ ''Remote: unix://'' @ [CHR 0x0A])
      @ ''Status: '' @ (''Running'' @ [CHR 0x0A] @ ''Type: persistent'' @ [CHR 0x0A])"
    by (simp add: info_text_def)
  from c i no_status_before
    LXDInstance_state_falls_back [of "container ''Running''" "[]" "''c1''" "info_text ''Running''"]
  have "LXDInstance_state (container ''Running'') ''c1'' [] =
      (Inr (takeWhile (\<lambda>x. x \<noteq> CHR 0x0A) (''Running'' @ [CHR 0x0A] @ ''Type: persistent'' @ [CHR 0x0A])),
       [] @ [[''lxc'', ''info'', ''c1'']])"
    by blast
  then have r: "LXDInstance_state (container ''Running'') ''c1'' [] = (Inr ''Running'', [[''lxc'', ''info'', ''c1'']])"
    by simp
  have g: "garbled [] [''lxc'', ''info'', ''c1''] = Inr (''Error: not found'' @ [CHR 0x0A])"
    by (simp add: garbled_def)
  from g no_field_in_garbled
    LXDInstance_state_falls_back [of garbled "[]" "''c1''" "''Error: not found'' @ [CHR 0x0A]"]
  have "LXDInstance_state garbled ''c1'' [] = (Inr ''Unknown'', [] @ [[''lxc'', ''info'', ''c1'']])"
    and "LXDInstance_ephemeral garbled ''c1'' [] = (Inr False, [] @ [[''lxc'', ''info'', ''c1'']])"
    by blast+
  with r show ?thesis by simp
qed

section \<open>LXD: start, shutdown, restart\<close>

lemma state_record:
  "snd (LXDInstance_state b name log) = log @ [[''lxc'', ''info'', name]]"
  by (simp add: LXDInstance_state_def bnd_def subp_def ret_def split: sum.splits list.splits)

lemma state_observed:
  assumes "fst (LXDInstance_state b name log) = Inr s"
  shows "LXDInstance_state b name log = (Inr s, log @ [[''lxc'', ''info'', name]])"
  using assms state_record [of b name log] by (metis prod.collapse)

lemma start_running:
  assumes "fst (LXDInstance_state b name log) = Inr ''Running''"
  shows "LXDInstance_start b wait_for_system name wait log = (Inr (), log @ [[''lxc'', ''info'', name]])"
  using state_observed [OF assms] by (simp add: LXDInstance_start_def bnd_def ret_def)

lemma shutdown_stopped:
  assumes "fst (LXDInstance_state b name log) = Inr ''Stopped''"
  shows "LXDInstance_shutdown b name wait log = (Inr (), log @ [[''lxc'', ''info'', name]])"
  using state_observed [OF assms] by (simp add: LXDInstance_shutdown_def bnd_def ret_def)

lemma restart_not_stopped:
  assumes st: "fst (LXDInstance_state b name log) = Inr state" and ns: "state \<noteq> ''Stopped''"
    and stop: "b (log @ [[''lxc'', ''info'', name]]) [''lxc'', ''stop'', name, ''--force''] = Inr out"
  shows "LXDInstance_restart b wait_for_system name wait log =
         LXDInstance_start b wait_for_system name wait
           (log @ [[''lxc'', ''info'', name], [''lxc'', ''stop'', name, ''--force'']])"
proof -
  from st have "LXDInstance_state b name log = (Inr state, log @ [[''lxc'', ''info'', name]])"
    by (rule state_observed)
  with ns stop have "LXDInstance_shutdown b name True log =
      (Inr (), log @ [[''lxc'', ''info'', name], [''lxc'', ''stop'', name, ''--force'']])"
    by (simp add: LXDInstance_shutdown_def LXDInstance_wait_for_stop_def bnd_def subp_def ret_def)
  then show ?thesis
    by (simp add: LXDInstance_restart_def bnd_def)
qed

text \<open>What the example host answers to the status query, at the records used below.\<close>

lemma container_state:
  "LXDInstance_state (container ''Running'') ''c1'' []
     = (Inr ''Running'', [[''lxc'', ''info'', ''c1'']])"
  "LXDInstance_state (container ''Stopped'') ''c1'' []
     = (Inr ''Stopped'', [[''lxc'', ''info'', ''c1'']])"
  "LXDInstance_state (container ''Stopped'') ''c1'' [[''lxc'', ''start'', ''c1'']]
     = (Inr ''Running'', [[''lxc'', ''start'', ''c1''], [''lxc'', ''info'', ''c1'']])"
  "LXDInstance_state (container ''Running'') ''c1'' [[''lxc'', ''stop'', ''c1'', ''--force'']]
     = (Inr ''Stopped'', [[''lxc'', ''stop'', ''c1'', ''--force''], [''lxc'', ''info'', ''c1'']])"
  "LXDInstance_state (container ''Running'') ''c1''
      [[''lxc'', ''info'', ''c1''], [''lxc'', ''stop'', ''c1'', ''--force'']]
     = (Inr ''Stopped'',
        [[''lxc'', ''info'', ''c1''], [''lxc'', ''stop'', ''c1'', ''--force''], [''lxc'', ''info'', ''c1'']])"
  by (simp_all add: LXDInstance_state_def bnd_def subp_def ret_def container_def info_text_def)

text \<open>
  Claim C3, as the code has it. \<^verbatim>\<open>start\<close> on an instance whose state reads \<^verbatim>\<open>Running\<close>,
  and \<^verbatim>\<open>shutdown\<close> on one whose state reads \<^verbatim>\<open>Stopped\<close>, return at once with success;
  the only command they run is the status query \<^verbatim>\<open>lxc info\<close> by which they read the
  state. No \<^verbatim>\<open>lxc start\<close>, no \<^verbatim>\<open>lxc stop\<close> and no wait follows.
\<close>

theorem LXDInstance_start_shutdown_only_query:
  "(fst (LXDInstance_state b name log) = Inr ''Running'' \<longrightarrow>
      LXDInstance_start b wait_for_system name wait log = (Inr (), log @ [[''lxc'', ''info'', name]]))
 \<and> (fst (LXDInstance_state b name log) = Inr ''Stopped'' \<longrightarrow>
      LXDInstance_shutdown b name wait log = (Inr (), log @ [[''lxc'', ''info'', name]]))"
  using start_running shutdown_stopped by blast

theorem LXDInstance_start_shutdown_only_query_witness:
  "LXDInstance_start (container ''Stopped'') (throw (ExternalError ''never reached'')) ''c1'' True
      [[''lxc'', ''start'', ''c1'']]
     = (Inr (), [[''lxc'', ''start'', ''c1''], [''lxc'', ''info'', ''c1'']])
   \<and> LXDInstance_shutdown (container ''Running'') ''c1'' True [[''lxc'', ''stop'', ''c1'', ''--force'']]
     = (Inr (), [[''lxc'', ''stop'', ''c1'', ''--force''], [''lxc'', ''info'', ''c1'']])"
proof -
  from LXDInstance_start_shutdown_only_query
    [of "container ''Stopped''" "''c1''" "[[''lxc'', ''start'', ''c1'']]"
        "throw (ExternalError ''never reached'')" True]
  have "LXDInstance_start (container ''Stopped'') (throw (ExternalError ''never reached'')) ''c1'' True
      [[''lxc'', ''start'', ''c1'']]
     = (Inr (), [[''lxc'', ''start'', ''c1''], [''lxc'', ''info'', ''c1'']])"
    by (simp add: container_state)
  moreover
  from LXDInstance_start_shutdown_only_query
    [of "container ''Running''" "''c1''" "[[''lxc'', ''stop'', ''c1'', ''--force'']]"
        "ret ()" True]
  have "LXDInstance_shutdown (container ''Running'') ''c1'' True [[''lxc'', ''stop'', ''c1'', ''--force'']]
     = (Inr (), [[''lxc'', ''stop'', ''c1'', ''--force''], [''lxc'', ''info'', ''c1'']])"
    by (simp add: container_state)
  ultimately show ?thesis by simp
qed

text \<open>
  The claim as the specification states it fails: on a fresh record, \<^verbatim>\<open>start\<close> on a
  running container and \<^verbatim>\<open>shutdown\<close> on a stopped one have each run one command
  against the backend when they return.
\<close>

theorem LXDInstance_start_shutdown_counterexample:
  "fst (LXDInstance_state (container ''Running'') ''c1'' []) = Inr ''Running''
   \<and> LXDInstance_start (container ''Running'') (ret ()) ''c1'' True []
       = (Inr (), [[''lxc'', ''info'', ''c1'']])
   \<and> fst (LXDInstance_state (container ''Stopped'') ''c1'' []) = Inr ''Stopped''
   \<and> LXDInstance_shutdown (container ''Stopped'') ''c1'' True []
       = (Inr (), [[''lxc'', ''info'', ''c1'']])"
  by (simp add: container_state LXDInstance_start_def LXDInstance_shutdown_def bnd_def ret_def)

text \<open>
  Claim C5. \<^verbatim>\<open>restart\<close> gives the same result and runs the same commands as
  \<^verbatim>\<open>shutdown()\<close> followed by \<^verbatim>\<open>start(wait)\<close>. There is no shortcut: on an instance
  not read as \<^verbatim>\<open>Stopped\<close>, whose forced stop succeeds, \<^verbatim>\<open>restart\<close> is the whole of
  \<^verbatim>\<open>start\<close> run on the record that holds the status query and the stop.
\<close>

theorem LXDInstance_restart_is_shutdown_then_start:
  "LXDInstance_restart b wait_for_system name wait log
     = shutdown_then_start b wait_for_system name wait log
   \<and> (\<forall>state out. fst (LXDInstance_state b name log) = Inr state \<and> state \<noteq> ''Stopped''
         \<and> b (log @ [[''lxc'', ''info'', name]]) [''lxc'', ''stop'', name, ''--force''] = Inr out
       \<longrightarrow> LXDInstance_restart b wait_for_system name wait log =
             LXDInstance_start b wait_for_system name wait
               (log @ [[''lxc'', ''info'', name], [''lxc'', ''stop'', name, ''--force'']]))"
proof (intro conjI allI impI)
  show "LXDInstance_restart b wait_for_system name wait log
      = shutdown_then_start b wait_for_system name wait log"
    by (simp add: LXDInstance_restart_def shutdown_then_start_def bnd_def
             split: prod.splits sum.splits)
next
  fix state out
  assume "fst (LXDInstance_state b name log) = Inr state \<and> state \<noteq> ''Stopped''
         \<and> b (log @ [[''lxc'', ''info'', name]]) [''lxc'', ''stop'', name, ''--force''] = Inr out"
  then show "LXDInstance_restart b wait_for_system name wait log =
             LXDInstance_start b wait_for_system name wait
               (log @ [[''lxc'', ''info'', name], [''lxc'', ''stop'', name, ''--force'']])"
    using restart_not_stopped by blast
qed

theorem LXDInstance_restart_is_shutdown_then_start_witness:
  "LXDInstance_restart (container ''Running'') (ret ()) ''c1'' True []
     = shutdown_then_start (container ''Running'') (ret ()) ''c1'' True []
   \<and> LXDInstance_restart (container ''Running'') (ret ()) ''c1'' True []
     = (Inr (), [[''lxc'', ''info'', ''c1''], [''lxc'', ''stop'', ''c1'', ''--force''],
                 [''lxc'', ''info'', ''c1''], [''lxc'', ''start'', ''c1'']])"
proof -
  have s: "fst (LXDInstance_state (container ''Running'') ''c1'' []) = Inr ''Running''"
    by (simp add: container_state)
  have o: "container ''Running'' ([] @ [[''lxc'', ''info'', ''c1'']]) [''lxc'', ''stop'', ''c1'', ''--force'']
       = Inr []"
    by (simp add: container_def)
  have t: "LXDInstance_start (container ''Running'') (ret ()) ''c1'' True
         [[''lxc'', ''info'', ''c1''], [''lxc'', ''stop'', ''c1'', ''--force'']]
     = (Inr (), [[''lxc'', ''info'', ''c1''], [''lxc'', ''stop'', ''c1'', ''--force''],
                 [''lxc'', ''info'', ''c1''], [''lxc'', ''start'', ''c1'']])"
    by (simp add: LXDInstance_start_def LXDInstance_wait_def container_state bnd_def subp_def
          ret_def container_def)
  from LXDInstance_restart_is_shutdown_then_start [of "container ''Running''" "ret ()" "''c1''" True "[]"]
    s o
  have "LXDInstance_restart (container ''Running'') (ret ()) ''c1'' True []
     = shutdown_then_start (container ''Running'') (ret ()) ''c1'' True []"
    and "LXDInstance_restart (container ''Running'') (ret ()) ''c1'' True [] =
         LXDInstance_start (container ''Running'') (ret ()) ''c1'' True
           ([] @ [[''lxc'', ''info'', ''c1''], [''lxc'', ''stop'', ''c1'', ''--force'']])"
    by blast+
  with t show ?thesis by simp
qed

end
